theory Spec2Isabelle
  imports Main "HOL-Library.Word"
begin

section \<open>Shared constants (pkg/shared)\<close>

text \<open>
  Subject patterns of \<^verbatim>\<open>pkg/shared/subjects.go\<close>. A pattern with one \<^verbatim>\<open>%s\<close> is the
  pair of the text before and after the hole; \<^verbatim>\<open>fmt.Sprintf\<close> on two strings and one
  hole is concatenation.
\<close>

definition SubjectEntitiesAll :: string where
  "SubjectEntitiesAll = ''constellation.entities.>''"

definition SubjectEventsAll :: string where
  "SubjectEventsAll = ''constellation.events.>''"

definition SubjectTelemetryAll :: string where
  "SubjectTelemetryAll = ''constellation.telemetry.>''"

definition SubjectCommandsAll :: string where
  "SubjectCommandsAll = ''constellation.commands.>''"

definition Sprintf1 :: "string \<times> string \<Rightarrow> string \<Rightarrow> string" where
  "Sprintf1 pat a = fst pat @ a @ snd pat"

definition SubjectEntityCreated :: "string \<times> string" where
  "SubjectEntityCreated = (''constellation.entities.'', ''.created'')"

definition SubjectEntityUpdated :: "string \<times> string" where
  "SubjectEntityUpdated = (''constellation.entities.'', ''.updated'')"

definition SubjectEntityDeleted :: "string \<times> string" where
  "SubjectEntityDeleted = (''constellation.entities.'', ''.deleted'')"

definition SubjectEntityStatus :: "string \<times> string" where
  "SubjectEntityStatus = (''constellation.entities.'', ''.status'')"

definition EntityCreatedSubject :: "string \<Rightarrow> string" where
  "EntityCreatedSubject orgID = Sprintf1 SubjectEntityCreated orgID"

definition EntityUpdatedSubject :: "string \<Rightarrow> string" where
  "EntityUpdatedSubject orgID = Sprintf1 SubjectEntityUpdated orgID"

definition EntityDeletedSubject :: "string \<Rightarrow> string" where
  "EntityDeletedSubject orgID = Sprintf1 SubjectEntityDeleted orgID"

definition EntityStatusSubject :: "string \<Rightarrow> string" where
  "EntityStatusSubject orgID = Sprintf1 SubjectEntityStatus orgID"

definition StreamEntities :: string where "StreamEntities = ''CONSTELLATION_ENTITIES''"
definition StreamEvents :: string where "StreamEvents = ''CONSTELLATION_EVENTS''"
definition StreamTelemetry :: string where "StreamTelemetry = ''CONSTELLATION_TELEMETRY''"
definition StreamCommands :: string where "StreamCommands = ''CONSTELLATION_COMMANDS''"

definition ConsumerEntityProcessor :: string where
  "ConsumerEntityProcessor = ''entity-processor''"
definition ConsumerEventProcessor :: string where
  "ConsumerEventProcessor = ''event-processor''"
definition ConsumerCommandProcessor :: string where
  "ConsumerCommandProcessor = ''command-processor''"
definition ConsumerTelemetryProcessor :: string where
  "ConsumerTelemetryProcessor = ''telemetry-processor''"

text \<open>Event type tags of \<^verbatim>\<open>pkg/shared\<close>.\<close>

definition EventTypeCreated :: string where "EventTypeCreated = ''created''"
definition EventTypeUpdated :: string where "EventTypeUpdated = ''updated''"
definition EventTypeDeleted :: string where "EventTypeDeleted = ''deleted''"
definition EventTypeStatus :: string where "EventTypeStatus = ''status_changed''"

section \<open>Decimal rendering (the \<^verbatim>\<open>%d\<close> verb)\<close>

definition digit_char :: "nat \<Rightarrow> char" where
  "digit_char d = ''0123456789'' ! d"

fun dec_nat :: "nat \<Rightarrow> string" where
  "dec_nat n = (if n < 10 then [digit_char n] else dec_nat (n div 10) @ [digit_char (n mod 10)])"

declare dec_nat.simps [simp del]

definition dec_int :: "int \<Rightarrow> string" where
  "dec_int i = (if i < 0 then CHR ''-'' # dec_nat (nat (- i)) else dec_nat (nat i))"

text \<open>Reading a digit string back: the inverse used to show that rendering is injective.\<close>

definition digit_val :: "char \<Rightarrow> nat" where
  "digit_val c = of_char c - 48"

definition undec_nat :: "string \<Rightarrow> nat" where
  "undec_nat s = foldl (\<lambda>a c. 10 * a + digit_val c) 0 s"

section \<open>Entity events (api/services/entity.service.go)\<close>

text \<open>
  \<^verbatim>\<open>ontology.Entity\<close>. The float and time fields are never inspected by the functions
  modelled here; they are carried as values of a parameter type.
\<close>

record 'f Entity =
  EntityID :: string
  OrgID :: string
  EntityType :: string
  Status :: string
  Priority :: string
  IsLive :: bool
  Latitude :: "'f option"
  Longitude :: "'f option"
  Altitude :: "'f option"
  Heading :: "'f option"
  Velocity :: "'f option"
  Components :: string
  Tags :: string
  Metadata :: string

datatype 'f data_value = DString string | DEntity "'f Entity"

text \<open>\<^verbatim>\<open>shared.Event\<close>; \<^verbatim>\<open>Data\<close> is a Go map from field name to value.\<close>

record 'f Event =
  ev_ID :: string
  ev_Type :: string
  ev_Subject :: string
  ev_Data :: "string \<rightharpoonup> 'f data_value"
  ev_Timestamp :: "64 word"
  ev_Source :: string

text \<open>\<^verbatim>\<open>nats.Msg\<close> as built by \<^verbatim>\<open>PublishWithDedup\<close>: subject, payload and headers.\<close>

record nats_Msg =
  msg_Subject :: string
  msg_Data :: string
  msg_Header :: "string \<rightharpoonup> string"

text \<open>
  \<^verbatim>\<open>EmbeddedNATS.PublishWithDedup\<close>. The broker call \<^verbatim>\<open>js.PublishMsg\<close> is the parameter
  \<open>PublishMsg\<close>, which returns the broker's error, if any. The result is the message
  handed to the broker and the error returned to the caller.
\<close>

definition PublishWithDedup ::
  "(nats_Msg \<Rightarrow> string option) \<Rightarrow> string \<Rightarrow> string \<Rightarrow> string \<Rightarrow> nats_Msg \<times> string option" where
  "PublishWithDedup PublishMsg subject data msgID =
     (let msg = \<lparr>msg_Subject = subject, msg_Data = data,
                  msg_Header = [''Nats-Msg-Id'' \<mapsto> msgID]\<rparr>
      in case PublishMsg msg of
           Some err \<Rightarrow> (msg, Some (''failed to publish message: '' @ err))
         | None \<Rightarrow> (msg, None))"

text \<open>
  What \<^verbatim>\<open>publishEntityEvent\<close> reads from its environment: whether the broker handle and
  its JetStream context are set, the fresh UUID, the two clock readings (the event
  timestamp, and \<^verbatim>\<open>time.Now().UnixNano()\<close> for the message id), the JSON encoder and the
  broker's publish call.
\<close>

record 'f publish_env =
  nats_available :: bool
  new_uuid :: string
  now_utc :: "64 word"
  now_unix_nano :: "64 word"
  json_Marshal :: "'f Event \<Rightarrow> string + string"
  js_PublishMsg :: "nats_Msg \<Rightarrow> string option"

text \<open>The message id: \<^verbatim>\<open>fmt.Sprintf("%s-%s-%d", entity.EntityID, eventType, nanos)\<close>.\<close>

definition msgID_of :: "string \<Rightarrow> string \<Rightarrow> 64 word \<Rightarrow> string" where
  "msgID_of entityID eventType nanos = entityID @ ''-'' @ eventType @ ''-'' @ dec_int (sint nanos)"

definition entity_event :: "'f publish_env \<Rightarrow> 'f Entity \<Rightarrow> string \<Rightarrow> 'f Event" where
  "entity_event env entity eventType =
     (let event = \<lparr>ev_ID = new_uuid env,
                    ev_Type = eventType,
                    ev_Subject = EntityCreatedSubject (OrgID entity),
                    ev_Data = [''entity_id'' \<mapsto> DString (EntityID entity),
                               ''org_id'' \<mapsto> DString (OrgID entity),
                               ''entity_type'' \<mapsto> DString (EntityType entity),
                               ''status'' \<mapsto> DString (Status entity),
                               ''priority'' \<mapsto> DString (Priority entity)],
                    ev_Timestamp = now_utc env,
                    ev_Source = ''entity-service''\<rparr>
      in if eventType = EventTypeCreated \<or> eventType = EventTypeUpdated
         then event\<lparr>ev_Data := (ev_Data event)(''entity'' \<mapsto> DEntity entity)\<rparr>
         else event)"

text \<open>
  \<^verbatim>\<open>publishEntityEvent\<close>: the log lines written and the messages handed to the broker,
  in order.
\<close>

definition publishEntityEvent ::
  "'f publish_env \<Rightarrow> 'f Entity \<Rightarrow> string \<Rightarrow> string list \<times> nats_Msg list" where
  "publishEntityEvent env entity eventType =
     (if \<not> nats_available env then ([''NATS not available for publishing event''], [])
      else
        let event = entity_event env entity eventType in
        case json_Marshal env event of
          Inl err \<Rightarrow> ([''Failed to marshal entity event: '' @ err], [])
        | Inr data \<Rightarrow>
            (let msgID = msgID_of (EntityID entity) eventType (now_unix_nano env);
                 sent = PublishWithDedup (js_PublishMsg env) (ev_Subject event) data msgID
             in (case snd sent of
                   Some err \<Rightarrow> ([''Failed to publish entity event: '' @ err], [fst sent])
                 | None \<Rightarrow>
                     ([''Published entity event: '' @ eventType @ '' on subject: ''
                         @ ev_Subject event], [fst sent]))))"

section \<open>The broker interface (nats.go JetStream)\<close>

text \<open>
  The broker client is a library outside the repository. It is modelled as a store of
  stream and consumer configurations. What the broker decides by rules of its own is a
  parameter of the store: a failing lookup, a refused creation, a refused update, and
  the normal form in which it keeps a stream configuration (an omitted subject list or
  duplicate window comes back filled in). Consumers created without a durable name are
  nameless: the broker keeps them in a list, and no lookup by name finds them. Integer
  fields have the width of their Go types; a \<^verbatim>\<open>time.Duration\<close> is a 64-bit count of
  nanoseconds.
\<close>

datatype RetentionPolicy = LimitsPolicy | InterestPolicy | WorkQueuePolicy

datatype DiscardPolicy = DiscardOld | DiscardNew

datatype AckPolicy = AckNonePolicy | AckAllPolicy | AckExplicitPolicy

datatype DeliverPolicy = DeliverAllPolicy | DeliverLastPolicy | DeliverNewPolicy

datatype ReplayPolicy = ReplayInstantPolicy | ReplayOriginalPolicy

definition Second :: "64 word" where "Second = 1000 * 1000 * 1000"
definition Minute :: "64 word" where "Minute = 60 * Second"
definition Hour :: "64 word" where "Hour = 60 * Minute"

text \<open>\<^verbatim>\<open>nats.StreamConfig\<close>, with the fields \<^verbatim>\<open>AddStream\<close> sets.\<close>

record nats_StreamConfig =
  nsc_Name :: string
  nsc_Subjects :: "string list"
  nsc_Retention :: RetentionPolicy
  nsc_MaxMsgs :: "64 word"
  nsc_MaxBytes :: "64 word"
  nsc_MaxAge :: "64 word"
  nsc_MaxMsgSize :: "32 word"
  nsc_Replicas :: int
  nsc_Duplicates :: "64 word"
  nsc_AllowRollup :: bool
  nsc_AllowDirect :: bool
  nsc_Discard :: DiscardPolicy

text \<open>\<^verbatim>\<open>nats.ConsumerConfig\<close>, with the fields \<^verbatim>\<open>CreateDurableConsumer\<close> sets.\<close>

record nats_ConsumerConfig =
  ncc_Durable :: string
  ncc_FilterSubject :: string
  ncc_AckPolicy :: AckPolicy
  ncc_AckWait :: "64 word"
  ncc_MaxDeliver :: int
  ncc_MaxAckPending :: int
  ncc_DeliverPolicy :: DeliverPolicy
  ncc_ReplayPolicy :: ReplayPolicy

record jetstream =
  js_streams :: "string \<rightharpoonup> nats_StreamConfig"
  js_consumers :: "string \<times> string \<rightharpoonup> nats_ConsumerConfig"
  js_ephemerals :: "(string \<times> nats_ConsumerConfig) list"
  js_normalise :: "nats_StreamConfig \<Rightarrow> nats_StreamConfig"
  js_lookup_error :: "string \<Rightarrow> string option"
  js_create_error :: "nats_StreamConfig \<Rightarrow> string option"
  js_update_error :: "nats_StreamConfig \<Rightarrow> nats_StreamConfig \<Rightarrow> string option"
  js_consumer_error :: "string \<Rightarrow> nats_ConsumerConfig \<Rightarrow> string option"

definition js_StreamInfo :: "jetstream \<Rightarrow> string \<Rightarrow> string + nats_StreamConfig" where
  "js_StreamInfo j name =
     (case js_lookup_error j name of
        Some err \<Rightarrow> Inl err
      | None \<Rightarrow> (case js_streams j name of
                   None \<Rightarrow> Inl ''nats: stream not found''
                 | Some c \<Rightarrow> Inr c))"

text \<open>
  An accepted update or creation stores, and returns, the configuration as the broker
  normalises it. Creating a stream that exists succeeds without a change when the stored
  configuration is the normalised request, and fails otherwise.
\<close>

definition js_UpdateStream ::
  "jetstream \<Rightarrow> nats_StreamConfig \<Rightarrow> string + jetstream \<times> nats_StreamConfig" where
  "js_UpdateStream j cfg =
     (case js_streams j (nsc_Name cfg) of
        None \<Rightarrow> Inl ''nats: stream not found''
      | Some old \<Rightarrow>
          (case js_update_error j old cfg of
             Some err \<Rightarrow> Inl err
           | None \<Rightarrow>
               Inr (j\<lparr>js_streams := (js_streams j)(nsc_Name cfg \<mapsto> js_normalise j cfg)\<rparr>,
                    js_normalise j cfg)))"

definition js_AddStream ::
  "jetstream \<Rightarrow> nats_StreamConfig \<Rightarrow> string + jetstream \<times> nats_StreamConfig" where
  "js_AddStream j cfg =
     (case js_streams j (nsc_Name cfg) of
        Some old \<Rightarrow>
          (if old = js_normalise j cfg then Inr (j, old)
           else Inl ''nats: stream name already in use'')
      | None \<Rightarrow>
          (case js_create_error j cfg of
             Some err \<Rightarrow> Inl err
           | None \<Rightarrow>
               Inr (j\<lparr>js_streams := (js_streams j)(nsc_Name cfg \<mapsto> js_normalise j cfg)\<rparr>,
                    js_normalise j cfg)))"

text \<open>A lookup needs a consumer name: the client refuses the empty one.\<close>

definition js_ConsumerInfo ::
  "jetstream \<Rightarrow> string \<Rightarrow> string \<Rightarrow> string + nats_ConsumerConfig" where
  "js_ConsumerInfo j streamName consumerName =
     (if consumerName = [] then Inl ''nats: consumer name is required''
      else
        (case js_lookup_error j streamName of
           Some err \<Rightarrow> Inl err
         | None \<Rightarrow> (case js_consumers j (streamName, consumerName) of
                      None \<Rightarrow> Inl ''nats: consumer not found''
                    | Some c \<Rightarrow> Inr c)))"

text \<open>
  A request without a durable name creates a new nameless consumer each time. A request
  with one creates the consumer when the name is free; when it is taken, the request
  succeeds without a change if the configurations agree and fails otherwise.
\<close>

definition js_AddConsumer ::
  "jetstream \<Rightarrow> string \<Rightarrow> nats_ConsumerConfig \<Rightarrow> string + jetstream" where
  "js_AddConsumer j streamName cfg =
     (if ncc_Durable cfg = [] then
        (case js_streams j streamName of
           None \<Rightarrow> Inl ''nats: stream not found''
         | Some _ \<Rightarrow>
             (case js_consumer_error j streamName cfg of
                Some err \<Rightarrow> Inl err
              | None \<Rightarrow> Inr (j\<lparr>js_ephemerals := js_ephemerals j @ [(streamName, cfg)]\<rparr>)))
      else
        (case js_consumers j (streamName, ncc_Durable cfg) of
           Some old \<Rightarrow>
             (if old = cfg then Inr j else Inl ''nats: consumer name already in use'')
         | None \<Rightarrow>
             (case js_streams j streamName of
                None \<Rightarrow> Inl ''nats: stream not found''
              | Some _ \<Rightarrow>
                  (case js_consumer_error j streamName cfg of
                     Some err \<Rightarrow> Inl err
                   | None \<Rightarrow>
                       Inr (j\<lparr>js_consumers :=
                                 (js_consumers j)((streamName, ncc_Durable cfg) \<mapsto> cfg)\<rparr>)))))"

section \<open>Stream registry and consumer manager (embedded-nats)\<close>

text \<open>The package's own \<^verbatim>\<open>StreamConfig\<close>.\<close>

record StreamConfig =
  sc_Name :: string
  sc_Subjects :: "string list"
  sc_Retention :: RetentionPolicy
  sc_MaxMsgs :: "64 word"
  sc_MaxBytes :: "64 word"
  sc_MaxAge :: "64 word"
  sc_MaxMsgSize :: "32 word"
  sc_Replicas :: int
  sc_DuplicateWindow :: "64 word"
  sc_AllowRollup :: bool
  sc_AllowDirect :: bool
  sc_DiscardPolicy :: DiscardPolicy

text \<open>
  \<^verbatim>\<open>EmbeddedNATS\<close>: whether the server and the connection are set, the JetStream
  context when set, and the local registry of declared streams.
\<close>

record EmbeddedNATS =
  en_server :: bool
  en_nc :: bool
  en_js :: "jetstream option"
  en_streams :: "string \<rightharpoonup> StreamConfig"

text \<open>The \<^verbatim>\<open>%v\<close> rendering of a slice of strings.\<close>

fun join_space :: "string list \<Rightarrow> string" where
  "join_space [] = []"
| "join_space [x] = x"
| "join_space (x # y # ys) = x @ '' '' @ join_space (y # ys)"

definition fmt_strings :: "string list \<Rightarrow> string" where
  "fmt_strings xs = ''['' @ join_space xs @ '']''"

definition to_nats_config :: "StreamConfig \<Rightarrow> nats_StreamConfig" where
  "to_nats_config streamConfig =
     \<lparr>nsc_Name = sc_Name streamConfig,
      nsc_Subjects = sc_Subjects streamConfig,
      nsc_Retention = sc_Retention streamConfig,
      nsc_MaxMsgs = sc_MaxMsgs streamConfig,
      nsc_MaxBytes = sc_MaxBytes streamConfig,
      nsc_MaxAge = sc_MaxAge streamConfig,
      nsc_MaxMsgSize = sc_MaxMsgSize streamConfig,
      nsc_Replicas = sc_Replicas streamConfig,
      nsc_Duplicates = sc_DuplicateWindow streamConfig,
      nsc_AllowRollup = sc_AllowRollup streamConfig,
      nsc_AllowDirect = sc_AllowDirect streamConfig,
      nsc_Discard = sc_DiscardPolicy streamConfig\<rparr>"

text \<open>
  \<^verbatim>\<open>EmbeddedNATS.AddStream\<close>. The result is the returned error (\<open>None\<close> for nil), the
  state afterwards and the log lines written.
\<close>

definition stream_declared ::
  "EmbeddedNATS \<Rightarrow> StreamConfig \<Rightarrow> jetstream \<times> nats_StreamConfig \<Rightarrow> string
     \<Rightarrow> string option \<times> EmbeddedNATS \<times> string list" where
  "stream_declared en streamConfig done line =
     (None,
      en\<lparr>en_js := Some (fst done),
         en_streams := (en_streams en)(sc_Name streamConfig \<mapsto> streamConfig)\<rparr>,
      [line,
       ''Created stream: '' @ nsc_Name (snd done) @ '' with subjects: ''
         @ fmt_strings (nsc_Subjects (snd done))])"

definition AddStream ::
  "EmbeddedNATS \<Rightarrow> StreamConfig \<Rightarrow> string option \<times> EmbeddedNATS \<times> string list" where
  "AddStream en streamConfig =
     (case en_js en of
        None \<Rightarrow> (Some ''JetStream not initialized'', en, [])
      | Some j \<Rightarrow>
          (let config = to_nats_config streamConfig in
           case js_StreamInfo j (sc_Name streamConfig) of
             Inr _ \<Rightarrow>
               (case js_UpdateStream j config of
                  Inl err \<Rightarrow>
                    (Some (''failed to update stream '' @ sc_Name streamConfig @ '': '' @ err),
                     en, [])
                | Inr done \<Rightarrow>
                    stream_declared en streamConfig done
                      (''Updated existing stream: '' @ sc_Name streamConfig))
           | Inl _ \<Rightarrow>
               (case js_AddStream j config of
                  Inl err \<Rightarrow>
                    (Some (''failed to add stream '' @ sc_Name streamConfig @ '': '' @ err),
                     en, [])
                | Inr done \<Rightarrow>
                    stream_declared en streamConfig done
                      (''Created new stream: '' @ sc_Name streamConfig))))"

text \<open>The four definitions listed in \<^verbatim>\<open>CreateConstellationStreams\<close>.\<close>

definition constellation_streams :: "StreamConfig list" where
  "constellation_streams =
     [\<lparr>sc_Name = ''CONSTELLATION_ENTITIES'',
       sc_Subjects = [''constellation.entities.>''],
       sc_Retention = LimitsPolicy,
       sc_MaxMsgs = 100000,
       sc_MaxBytes = 256 * 1024 * 1024,
       sc_MaxAge = 7 * 24 * Hour,
       sc_MaxMsgSize = 1024 * 1024,
       sc_Replicas = 1,
       sc_DuplicateWindow = 2 * Minute,
       sc_AllowRollup = True,
       sc_AllowDirect = True,
       sc_DiscardPolicy = DiscardOld\<rparr>,
      \<lparr>sc_Name = ''CONSTELLATION_EVENTS'',
       sc_Subjects = [''constellation.events.>''],
       sc_Retention = WorkQueuePolicy,
       sc_MaxMsgs = 50000,
       sc_MaxBytes = 128 * 1024 * 1024,
       sc_MaxAge = 24 * Hour,
       sc_MaxMsgSize = 256 * 1024,
       sc_Replicas = 1,
       sc_DuplicateWindow = 2 * Minute,
       sc_AllowRollup = False,
       sc_AllowDirect = True,
       sc_DiscardPolicy = DiscardOld\<rparr>,
      \<lparr>sc_Name = ''CONSTELLATION_TELEMETRY'',
       sc_Subjects = [''constellation.telemetry.>''],
       sc_Retention = InterestPolicy,
       sc_MaxMsgs = 25000,
       sc_MaxBytes = 64 * 1024 * 1024,
       sc_MaxAge = 1 * Hour,
       sc_MaxMsgSize = 64 * 1024,
       sc_Replicas = 1,
       sc_DuplicateWindow = 30 * Second,
       sc_AllowRollup = True,
       sc_AllowDirect = True,
       sc_DiscardPolicy = DiscardOld\<rparr>,
      \<lparr>sc_Name = ''CONSTELLATION_COMMANDS'',
       sc_Subjects = [''constellation.commands.>''],
       sc_Retention = WorkQueuePolicy,
       sc_MaxMsgs = 10000,
       sc_MaxBytes = 32 * 1024 * 1024,
       sc_MaxAge = 15 * Minute,
       sc_MaxMsgSize = 32 * 1024,
       sc_Replicas = 1,
       sc_DuplicateWindow = 1 * Minute,
       sc_AllowRollup = False,
       sc_AllowDirect = False,
       sc_DiscardPolicy = DiscardNew\<rparr>]"

text \<open>The loop of \<^verbatim>\<open>CreateConstellationStreams\<close>: it returns at the first error.\<close>

fun add_streams ::
  "EmbeddedNATS \<Rightarrow> StreamConfig list \<Rightarrow> string option \<times> EmbeddedNATS \<times> string list" where
  "add_streams en [] = (None, en, [])"
| "add_streams en (stream # rest) =
     (case AddStream en stream of
        (Some err, en', ls) \<Rightarrow> (Some err, en', ls)
      | (None, en', ls) \<Rightarrow>
          (case add_streams en' rest of (r, en'', ls') \<Rightarrow> (r, en'', ls @ ls')))"

definition CreateConstellationStreams ::
  "EmbeddedNATS \<Rightarrow> string option \<times> EmbeddedNATS \<times> string list" where
  "CreateConstellationStreams en = add_streams en constellation_streams"

text \<open>
  A call that ends in a Go panic has no return value; \<open>Panic\<close> carries the runtime
  message.
\<close>

datatype 'a run = Return 'a | Panic string

definition durable_consumer_config :: "string \<Rightarrow> string \<Rightarrow> nats_ConsumerConfig" where
  "durable_consumer_config consumerName filterSubject =
     \<lparr>ncc_Durable = consumerName,
      ncc_FilterSubject = filterSubject,
      ncc_AckPolicy = AckExplicitPolicy,
      ncc_AckWait = 30 * Second,
      ncc_MaxDeliver = 3,
      ncc_MaxAckPending = 1000,
      ncc_DeliverPolicy = DeliverAllPolicy,
      ncc_ReplayPolicy = ReplayInstantPolicy\<rparr>"

text \<open>
  \<^verbatim>\<open>EmbeddedNATS.CreateDurableConsumer\<close>. The source does not test \<^verbatim>\<open>en.js\<close> for nil:
  calling \<^verbatim>\<open>ConsumerInfo\<close> on the nil interface panics.
\<close>

definition CreateDurableConsumer ::
  "EmbeddedNATS \<Rightarrow> string \<Rightarrow> string \<Rightarrow> string
     \<Rightarrow> (string option \<times> EmbeddedNATS \<times> string list) run" where
  "CreateDurableConsumer en streamName consumerName filterSubject =
     (let config = durable_consumer_config consumerName filterSubject in
      case en_js en of
        None \<Rightarrow> Panic ''invalid memory address or nil pointer dereference''
      | Some j \<Rightarrow>
          (case js_ConsumerInfo j streamName consumerName of
             Inr _ \<Rightarrow>
               Return (None, en,
                 [''Durable consumer already exists: '' @ consumerName @ '' on stream: ''
                    @ streamName])
           | Inl _ \<Rightarrow>
               (case js_AddConsumer j streamName config of
                  Inl err \<Rightarrow>
                    Return (Some (''failed to create consumer '' @ consumerName @ '': '' @ err),
                            en, [])
                | Inr j' \<Rightarrow>
                    Return (None, en\<lparr>en_js := Some j'\<rparr>,
                      [''Created durable consumer: '' @ consumerName @ '' on stream: ''
                         @ streamName]))))"

section \<open>Workers (pkg/services/workers)\<close>

text \<open>
  What a worker does to the outside: a line written to the log, or an acknowledgment
  call on a fetched message.
\<close>

datatype effect = LogLine string | AckCall nats_Msg

text \<open>
  A handler is a Go \<^verbatim>\<open>func(*nats.Msg)\<close>: it has no return value, so it either returns
  or panics, after writing some log lines.
\<close>

datatype handler_result = HReturn "string list" | HPanic "string list"

text \<open>
  The handler shared by the four workers: they differ in the worker name and in the
  noun of the two log lines. \<^verbatim>\<open>json.Unmarshal\<close> and \<^verbatim>\<open>json.MarshalIndent\<close> are the
  parameters \<open>unmarshal\<close> and \<open>indent\<close>.
\<close>

definition log_handler ::
  "string \<Rightarrow> string \<Rightarrow> string \<Rightarrow> (string \<Rightarrow> string + 'j) \<Rightarrow> ('j \<Rightarrow> string)
     \<Rightarrow> nats_Msg \<Rightarrow> handler_result" where
  "log_handler name noun Noun unmarshal indent msg =
     HReturn
       [''['' @ name @ ''] Received '' @ noun @ '' message on subject: '' @ msg_Subject msg,
        (case unmarshal (msg_Data msg) of
           Inl err \<Rightarrow> ''['' @ name @ ''] Raw message data: '' @ msg_Data msg
         | Inr data \<Rightarrow> ''['' @ name @ ''] '' @ Noun @ '' data:'' @ [CHR 0x0A] @ indent data)]"

definition EntityWorker_handler ::
  "(string \<Rightarrow> string + 'j) \<Rightarrow> ('j \<Rightarrow> string) \<Rightarrow> nats_Msg \<Rightarrow> handler_result" where
  "EntityWorker_handler = log_handler ''EntityWorker'' ''entity'' ''Entity''"

definition EventWorker_handler ::
  "(string \<Rightarrow> string + 'j) \<Rightarrow> ('j \<Rightarrow> string) \<Rightarrow> nats_Msg \<Rightarrow> handler_result" where
  "EventWorker_handler = log_handler ''EventWorker'' ''event'' ''Event''"

definition TelemetryWorker_handler ::
  "(string \<Rightarrow> string + 'j) \<Rightarrow> ('j \<Rightarrow> string) \<Rightarrow> nats_Msg \<Rightarrow> handler_result" where
  "TelemetryWorker_handler = log_handler ''TelemetryWorker'' ''telemetry'' ''Telemetry''"

definition CommandWorker_handler ::
  "(string \<Rightarrow> string + 'j) \<Rightarrow> ('j \<Rightarrow> string) \<Rightarrow> nats_Msg \<Rightarrow> handler_result" where
  "CommandWorker_handler = log_handler ''CommandWorker'' ''command'' ''Command''"

text \<open>
  The acknowledgment of one message: the call, and a log line when the broker returns
  an error (\<open>ack\<close> gives the error of \<^verbatim>\<open>msg.Ack()\<close>).
\<close>

definition ack_message :: "string \<Rightarrow> (nats_Msg \<Rightarrow> string option) \<Rightarrow> nats_Msg \<Rightarrow> effect list" where
  "ack_message name ack msg =
     AckCall msg #
       (case ack msg of
          Some err \<Rightarrow> [LogLine (''['' @ name @ ''] Error acknowledging message: '' @ err)]
        | None \<Rightarrow> [])"

text \<open>
  The inner loop of \<^verbatim>\<open>processMessages\<close> over one fetched batch. Nothing recovers a
  panic of the handler: it leaves the loop, and the flag of the result says so.
\<close>

fun process_batch ::
  "string \<Rightarrow> (nats_Msg \<Rightarrow> handler_result) \<Rightarrow> (nats_Msg \<Rightarrow> string option) \<Rightarrow> nats_Msg list
     \<Rightarrow> effect list \<times> bool" where
  "process_batch name handler ack [] = ([], False)"
| "process_batch name handler ack (msg # msgs) =
     (case handler msg of
        HPanic ls \<Rightarrow> (map LogLine ls, True)
      | HReturn ls \<Rightarrow>
          (case process_batch name handler ack msgs of
             (es, panicked) \<Rightarrow> (map LogLine ls @ ack_message name ack msg @ es, panicked)))"

datatype fetch_error = ErrTimeout | ErrOther string

text \<open>
  One pass of the outer loop sees either the cancelled context or the result of
  \<^verbatim>\<open>sub.Fetch\<close>: the messages and the error.
\<close>

datatype tick = Cancelled | Fetched "nats_Msg list" "fetch_error option"

datatype loop_end = Stopped | Crashed | Running

text \<open>
  The outer loop of \<^verbatim>\<open>processMessages\<close>, run against the list of what its passes see.
  It ends \<open>Stopped\<close> when it returns \<^verbatim>\<open>ctx.Err()\<close>, \<open>Crashed\<close> when a handler panics,
  and is still \<open>Running\<close> when the list is used up.
\<close>

fun worker_loop ::
  "string \<Rightarrow> (nats_Msg \<Rightarrow> handler_result) \<Rightarrow> (nats_Msg \<Rightarrow> string option) \<Rightarrow> tick list
     \<Rightarrow> effect list \<times> loop_end" where
  "worker_loop name handler ack [] = ([], Running)"
| "worker_loop name handler ack (Cancelled # rest) =
     ([LogLine (''['' @ name @ ''] Worker stopping'')], Stopped)"
| "worker_loop name handler ack (Fetched msgs (Some (ErrOther err)) # rest) =
     (case worker_loop name handler ack rest of
        (es, e) \<Rightarrow> (LogLine (''['' @ name @ ''] Error fetching messages: '' @ err) # es, e))"
| "worker_loop name handler ack (Fetched msgs _ # rest) =
     (case process_batch name handler ack msgs of
        (es, True) \<Rightarrow> (es, Crashed)
      | (es, False) \<Rightarrow>
          (case worker_loop name handler ack rest of (es', e) \<Rightarrow> (es @ es', e)))"

text \<open>
  \<^verbatim>\<open>processMessages\<close>: the subscription, then the loop. \<open>subscribe\<close> is the error of
  \<^verbatim>\<open>PullSubscribe\<close>, if any.
\<close>

definition processMessages ::
  "string \<Rightarrow> string \<Rightarrow> string \<Rightarrow> string option \<Rightarrow> (nats_Msg \<Rightarrow> handler_result)
     \<Rightarrow> (nats_Msg \<Rightarrow> string option) \<Rightarrow> tick list \<Rightarrow> string + effect list \<times> loop_end" where
  "processMessages name stream consumer subscribe handler ack ticks =
     (case subscribe of
        Some err \<Rightarrow> Inl err
      | None \<Rightarrow>
          (case worker_loop name handler ack ticks of
             (es, e) \<Rightarrow>
               Inr (LogLine (''['' @ name @ ''] Starting worker for stream: '' @ stream
                              @ '', consumer: '' @ consumer) # es, e)))"

text \<open>The messages on which an acknowledgment was called, in order.\<close>

fun ack_calls :: "effect list \<Rightarrow> nats_Msg list" where
  "ack_calls [] = []"
| "ack_calls (AckCall m # es) = m # ack_calls es"
| "ack_calls (LogLine l # es) = ack_calls es"

fun log_lines :: "effect list \<Rightarrow> string list" where
  "log_lines [] = []"
| "log_lines (AckCall m # es) = log_lines es"
| "log_lines (LogLine l # es) = l # log_lines es"

definition returns :: "(nats_Msg \<Rightarrow> handler_result) \<Rightarrow> nats_Msg \<Rightarrow> bool" where
  "returns handler msg = (case handler msg of HReturn _ \<Rightarrow> True | HPanic _ \<Rightarrow> False)"

section \<open>Shutdown (workers/manager.go, embedded-nats, main)\<close>

datatype closer = ByManager | ByEmbeddedNATS

datatype step =
    Note string
  | HTTPShutdown
  | CancelWorkers
  | Drain string
  | WaitWorkers
  | ConnClose closer
  | ServerShutdown
  | ServerWaitForShutdown

text \<open>
  A worker at the time of the shutdown: its name, whether its subscription is set, and
  the error \<^verbatim>\<open>Drain\<close> would return.
\<close>

record worker =
  w_name :: string
  w_sub :: bool
  w_drain_error :: "string option"

definition BaseWorker_Stop :: "worker \<Rightarrow> step list \<times> string option" where
  "BaseWorker_Stop w = (if w_sub w then ([Drain (w_name w)], w_drain_error w) else ([], None))"

record Manager =
  m_workers :: "worker list"
  m_nc :: bool

definition stop_worker :: "worker \<Rightarrow> step list" where
  "stop_worker w =
     (case BaseWorker_Stop w of
        (steps, Some err) \<Rightarrow>
          steps @ [Note (''Error stopping worker '' @ w_name w @ '': '' @ err)]
      | (steps, None) \<Rightarrow> steps)"

definition Manager_Stop :: "Manager \<Rightarrow> step list" where
  "Manager_Stop m =
     [Note ''Stopping NATS workers...'', CancelWorkers]
     @ concat (map stop_worker (m_workers m))
     @ [WaitWorkers]
     @ (if m_nc m then [ConnClose ByManager] else [])
     @ [Note ''All workers stopped'']"

definition EmbeddedNATS_Shutdown :: "EmbeddedNATS \<Rightarrow> step list" where
  "EmbeddedNATS_Shutdown en =
     (if en_nc en then [ConnClose ByEmbeddedNATS] else [])
     @ (if en_server en then [ServerShutdown, ServerWaitForShutdown] else [])"

text \<open>
  The end of \<^verbatim>\<open>main\<close>, from the shutdown signal on. \<open>http_error\<close> is the error of the
  HTTP server's shutdown; the manager and the broker handle may be nil.
\<close>

definition main_shutdown ::
  "string option \<Rightarrow> Manager option \<Rightarrow> EmbeddedNATS option \<Rightarrow> step list" where
  "main_shutdown http_error workerManager nats =
     [Note ''Shutting down server...'', HTTPShutdown]
     @ (case http_error of
          Some err \<Rightarrow> [Note (''Failed to shutdown server gracefully: '' @ err)]
        | None \<Rightarrow> [])
     @ (case workerManager of Some m \<Rightarrow> Manager_Stop m | None \<Rightarrow> [])
     @ (case nats of Some en \<Rightarrow> EmbeddedNATS_Shutdown en | None \<Rightarrow> [])
     @ [Note ''Server shutdown complete'']"

fun is_note :: "step \<Rightarrow> bool" where
  "is_note (Note _) = True"
| "is_note _ = False"

definition actions :: "step list \<Rightarrow> step list" where
  "actions steps = filter (\<lambda>s. \<not> is_note s) steps"

text \<open>The position of the first occurrence of a step, when it occurs.\<close>

fun first_index :: "'a \<Rightarrow> 'a list \<Rightarrow> nat option" where
  "first_index a [] = None"
| "first_index a (x # xs) =
     (if x = a then Some 0 else map_option Suc (first_index a xs))"

section \<open>Entity updates (api/services/entity.service.go)\<close>

text \<open>
  A value of Go's \<^verbatim>\<open>interface{}\<close> as the JSON decoder produces it. Numbers are never
  inspected by the update, so their type is a parameter.
\<close>

datatype 'n jvalue =
    JNull
  | JBool bool
  | JNum 'n
  | JStr string
  | JArr "'n jvalue list"
  | JObj "(string \<times> 'n jvalue) list"

text \<open>
  An argument bound to a placeholder, and a value stored in a column: the integer and
  the string the update makes itself, or the caller's value passed through.
\<close>

datatype 'n sql_value = SqlInt int | SqlStr string | SqlVal "'n jvalue"

type_synonym 'n row = "string \<rightharpoonup> 'n sql_value"

text \<open>
  Go errors of this file: the sentinel \<^verbatim>\<open>sql.ErrNoRows\<close>, an error made from a text, and
  an error wrapping another one behind a prefix (\<^verbatim>\<open>fmt.Errorf\<close> with \<^verbatim>\<open>%w\<close>). The source
  compares errors with \<^verbatim>\<open>==\<close>, which a wrapped sentinel does not pass.
\<close>

datatype go_error = ErrNoRows | New string | Wrap string go_error

fun Error :: "go_error \<Rightarrow> string" where
  "Error ErrNoRows = ''sql: no rows in result set''"
| "Error (New s) = s"
| "Error (Wrap prefix err) = prefix @ Error err"

text \<open>
  The statement under construction: the query text and the arguments, as the source
  holds them.
\<close>

type_synonym 'n statement = "string \<times> 'n sql_value list"

text \<open>
  One pass of the loop over the updates map. \<open>marshal\<close> is \<^verbatim>\<open>json.Marshal\<close>, whose
  error the source drops. For \<^verbatim>\<open>is_live\<close> the placeholder is always added, the argument
  only when the value is a boolean.
\<close>

definition update_field ::
  "('n jvalue \<Rightarrow> string) \<Rightarrow> 'n statement \<Rightarrow> string \<times> 'n jvalue \<Rightarrow> 'n statement" where
  "update_field marshal st kv =
     (case st of (query, args) \<Rightarrow> case kv of (key, v) \<Rightarrow>
        if key \<in> {''status'', ''priority'', ''entity_type''} then
          (query @ '', '' @ key @ '' = ?'', args @ [SqlVal v])
        else if key = ''is_live'' then
          (query @ '', is_live = ?'',
           (case v of
              JBool b \<Rightarrow> (if b then args @ [SqlInt 1] else args @ [SqlInt 0])
            | _ \<Rightarrow> args))
        else if key \<in> {''latitude'', ''longitude'', ''altitude'', ''heading'', ''velocity''} then
          (query @ '', '' @ key @ '' = ?'', args @ [SqlVal v])
        else if key \<in> {''metadata'', ''components'', ''tags''} then
          (query @ '', '' @ key @ '' = ?'', args @ [SqlStr (marshal v)])
        else (query, args))"

text \<open>
  The statement \<^verbatim>\<open>UpdateEntity\<close> executes. The updates map is the list of its entries
  in the order the loop visits them (Go leaves that order open); \<open>now\<close> is the formatted
  clock reading.
\<close>

definition update_statement ::
  "('n jvalue \<Rightarrow> string) \<Rightarrow> string \<Rightarrow> string \<Rightarrow> string \<Rightarrow> (string \<times> 'n jvalue) list
     \<Rightarrow> 'n statement" where
  "update_statement marshal now orgID entityID updates =
     (case foldl (update_field marshal) (''UPDATE entities SET updated_at = ?'', [SqlStr now])
             updates of
        (query, args) \<Rightarrow>
          (query @ '' WHERE org_id = ? AND entity_id = ?'',
           args @ [SqlStr orgID, SqlStr entityID]))"

subsection \<open>The database\<close>

text \<open>
  The database is outside the repository. The table is the list of its rows; a row maps
  a column to its value. The model reads an update statement of the shape
  \<^verbatim>\<open>UPDATE entities SET c = ?, ... WHERE org_id = ? AND entity_id = ?\<close> off the query
  text: the text is cut at its blanks, and the words between \<^verbatim>\<open>SET\<close> and \<^verbatim>\<open>WHERE\<close> give
  the columns of the \<^verbatim>\<open>SET\<close> clause in order.
\<close>

fun split_words :: "string \<Rightarrow> string list" where
  "split_words [] = [[]]"
| "split_words (c # cs) =
     (if c = CHR '' '' then [] # split_words cs
      else (case split_words cs of
              w # ws \<Rightarrow> (c # w) # ws
            | [] \<Rightarrow> [[c]]))"

definition where_words :: "string list" where
  "where_words = [''WHERE'', ''org_id'', ''='', ''?'', ''AND'', ''entity_id'', ''='', ''?'']"

fun parse_assignments :: "string list \<Rightarrow> string list option" where
  "parse_assignments (col # eq # mark # rest) =
     (if eq = ''='' \<and> mark = ''?,'' then map_option ((#) col) (parse_assignments rest)
      else if eq = ''='' \<and> mark = ''?'' \<and> rest = where_words then Some [col]
      else None)"
| "parse_assignments _ = None"

definition parse_update :: "string \<Rightarrow> string list option" where
  "parse_update query =
     (case split_words query of
        a # b # c # rest \<Rightarrow>
          (if a = ''UPDATE'' \<and> b = ''entities'' \<and> c = ''SET'' then parse_assignments rest
           else None)
      | _ \<Rightarrow> None)"

text \<open>
  Executing the update binds the arguments to the placeholders in order: the statement
  fails when their numbers differ or when an argument is of a type the driver does not
  convert (a JSON array or object); otherwise every row with the given organization and
  entity identifiers takes the new values of the columns of the \<^verbatim>\<open>SET\<close> clause. The
  result is the table and the number of rows affected.
\<close>

fun convertible :: "'n sql_value \<Rightarrow> bool" where
  "convertible (SqlVal (JArr _)) = False"
| "convertible (SqlVal (JObj _)) = False"
| "convertible _ = True"

definition row_matches :: "string \<Rightarrow> string \<Rightarrow> 'n row \<Rightarrow> bool" where
  "row_matches orgID entityID r =
     (r ''org_id'' = Some (SqlStr orgID) \<and> r ''entity_id'' = Some (SqlStr entityID))"

fun assign :: "'n row \<Rightarrow> string list \<Rightarrow> 'n sql_value list \<Rightarrow> 'n row" where
  "assign r (c # cols) (a # args) = assign (r(c \<mapsto> a)) cols args"
| "assign r _ _ = r"

definition db_Exec ::
  "string \<Rightarrow> 'n sql_value list \<Rightarrow> 'n row list \<Rightarrow> go_error + 'n row list \<times> nat" where
  "db_Exec query args table =
     (case parse_update query of
        None \<Rightarrow> Inl (New ''sql: syntax error'')
      | Some cols \<Rightarrow>
          if length args \<noteq> length cols + 2 then
            Inl (New ''sql: wrong number of arguments'')
          else if \<not> list_all convertible args then
            Inl (New ''sql: converting argument type: unsupported type'')
          else
            (case (args ! length cols, args ! (length cols + 1)) of
               (SqlStr orgID, SqlStr entityID) \<Rightarrow>
                 Inr (map (\<lambda>r. if row_matches orgID entityID r then assign r cols args else r)
                        table,
                      length (filter (row_matches orgID entityID) table))
             | _ \<Rightarrow> Inr (table, 0)))"

text \<open>
  \<^verbatim>\<open>QueryRow\<close> with the two identifiers gives the first matching row, if any; scanning
  no row gives \<^verbatim>\<open>sql.ErrNoRows\<close>.
\<close>

definition db_QueryRow :: "'n row list \<Rightarrow> string \<Rightarrow> string \<Rightarrow> 'n row option" where
  "db_QueryRow table orgID entityID = find (row_matches orgID entityID) table"

subsection \<open>The service\<close>

text \<open>
  \<^verbatim>\<open>scanEntity\<close>: \<open>Scan\<close> stands for the scanner's \<^verbatim>\<open>Scan\<close> and the conversions that
  follow it, from a row to an entity. Every error comes back wrapped.
\<close>

definition scanEntity :: "('n row \<Rightarrow> go_error + 'e) \<Rightarrow> 'n row option \<Rightarrow> go_error + 'e" where
  "scanEntity Scan row =
     (case (case row of None \<Rightarrow> Inl ErrNoRows | Some r \<Rightarrow> Scan r) of
        Inl err \<Rightarrow> Inl (Wrap ''failed to scan entity: '' err)
      | Inr entity \<Rightarrow> Inr entity)"

definition GetEntity ::
  "('n row \<Rightarrow> go_error + 'e) \<Rightarrow> 'n row list \<Rightarrow> string \<Rightarrow> string \<Rightarrow> go_error + 'e" where
  "GetEntity Scan table orgID entityID =
     (case scanEntity Scan (db_QueryRow table orgID entityID) of
        Inl err \<Rightarrow> (if err = ErrNoRows then Inl (New ''entity not found'') else Inl err)
      | Inr entity \<Rightarrow> Inr entity)"

text \<open>
  \<^verbatim>\<open>UpdateEntity\<close>: the table afterwards, and the error or the entity returned (for
  which the update event is then published).
\<close>

definition UpdateEntity ::
  "('n jvalue \<Rightarrow> string) \<Rightarrow> ('n row \<Rightarrow> go_error + 'e) \<Rightarrow> string \<Rightarrow> 'n row list
     \<Rightarrow> string \<Rightarrow> string \<Rightarrow> (string \<times> 'n jvalue) list \<Rightarrow> 'n row list \<times> (go_error + 'e)" where
  "UpdateEntity marshal Scan now table orgID entityID updates =
     (if length updates = 0 then (table, Inl (New ''no updates provided''))
      else
        (case update_statement marshal now orgID entityID updates of
           (query, args) \<Rightarrow>
             (case db_Exec query args table of
                Inl err \<Rightarrow> (table, Inl (Wrap ''failed to update entity: '' err))
              | Inr (table', rowsAffected) \<Rightarrow>
                  if rowsAffected = 0 then (table', Inl (New ''entity not found''))
                  else (table', GetEntity Scan table' orgID entityID))))"

subsection \<open>What the statement names\<close>

text \<open>The keys the switch of the loop has a case for.\<close>

definition recognized_keys :: "string list" where
  "recognized_keys =
     [''status'', ''priority'', ''entity_type'', ''is_live'', ''latitude'', ''longitude'',
      ''altitude'', ''heading'', ''velocity'', ''metadata'', ''components'', ''tags'']"

text \<open>
  The columns one expects in the \<^verbatim>\<open>SET\<close> clause: \<open>updated_at\<close>, then the recognized keys
  in the order of the loop. The properties below show that the database reads exactly
  this list off the text the loop builds.
\<close>

definition set_columns :: "(string \<times> 'n jvalue) list \<Rightarrow> string list" where
  "set_columns updates =
     ''updated_at'' # filter (\<lambda>k. k \<in> set recognized_keys) (map fst updates)"

section \<open>Observations and sample inputs\<close>

text \<open>The subjects and the deduplication keys of the messages one call hands to the broker.\<close>

definition published_subjects :: "'f publish_env \<Rightarrow> 'f Entity \<Rightarrow> string \<Rightarrow> string list" where
  "published_subjects env entity eventType =
     map msg_Subject (snd (publishEntityEvent env entity eventType))"

definition dedup_keys :: "'f publish_env \<Rightarrow> 'f Entity \<Rightarrow> string \<Rightarrow> string option list" where
  "dedup_keys env entity eventType =
     map (\<lambda>m. msg_Header m ''Nats-Msg-Id'') (snd (publishEntityEvent env entity eventType))"

text \<open>The stream and consumer configurations the broker holds.\<close>

definition declared :: "EmbeddedNATS \<Rightarrow> string \<rightharpoonup> nats_StreamConfig" where
  "declared en = (case en_js en of None \<Rightarrow> Map.empty | Some j \<Rightarrow> js_streams j)"

definition consumers_of :: "EmbeddedNATS \<Rightarrow> string \<times> string \<rightharpoonup> nats_ConsumerConfig" where
  "consumers_of en = (case en_js en of None \<Rightarrow> Map.empty | Some j \<Rightarrow> js_consumers j)"

text \<open>The state a call leaves behind; a panic leaves it as it was.\<close>

definition state_after ::
  "EmbeddedNATS \<Rightarrow> (string option \<times> EmbeddedNATS \<times> string list) run \<Rightarrow> EmbeddedNATS" where
  "state_after en r = (case r of Return (e, en', ls) \<Rightarrow> en' | Panic _ \<Rightarrow> en)"

text \<open>
  The settings of a stream definition a reader of the table compares: name, retention,
  discard policy, message cap, byte cap, maximum age in nanoseconds and maximum message
  size, the integers read as the signed values Go holds.
\<close>

definition stream_settings ::
  "StreamConfig \<Rightarrow> string \<times> RetentionPolicy \<times> DiscardPolicy \<times> int \<times> int \<times> int \<times> int" where
  "stream_settings s =
     (sc_Name s, sc_Retention s, sc_DiscardPolicy s, sint (sc_MaxMsgs s), sint (sc_MaxBytes s),
      sint (sc_MaxAge s), sint (sc_MaxMsgSize s))"

definition sample_entity :: "unit Entity" where
  "sample_entity =
     \<lparr>EntityID = ''e1'', OrgID = ''org1'', EntityType = ''drone'', Status = ''active'',
      Priority = ''normal'', IsLive = False, Latitude = None, Longitude = None,
      Altitude = None, Heading = None, Velocity = None, Components = ''[]'', Tags = ''[]'',
      Metadata = ''{}''\<rparr>"

text \<open>An environment with a reachable broker, reading the clock at \<open>nanos\<close>.\<close>

definition sample_env :: "64 word \<Rightarrow> unit publish_env" where
  "sample_env nanos =
     \<lparr>nats_available = True, new_uuid = ''u1'', now_utc = nanos, now_unix_nano = nanos,
      json_Marshal = (\<lambda>ev. Inr (ev_Type ev)), js_PublishMsg = (\<lambda>m. None)\<rparr>"

definition fresh_broker :: jetstream where
  "fresh_broker =
     \<lparr>js_streams = Map.empty, js_consumers = Map.empty, js_ephemerals = [],
      js_normalise = (\<lambda>c. c), js_lookup_error = (\<lambda>_. None),
      js_create_error = (\<lambda>_. None), js_update_error = (\<lambda>_ _. None),
      js_consumer_error = (\<lambda>_ _. None)\<rparr>"

definition started_nats :: EmbeddedNATS where
  "started_nats =
     \<lparr>en_server = True, en_nc = True, en_js = Some fresh_broker, en_streams = Map.empty\<rparr>"

definition commands_stream :: StreamConfig where
  "commands_stream = last constellation_streams"

definition msg1 :: nats_Msg where
  "msg1 = \<lparr>msg_Subject = ''constellation.entities.org1.created'', msg_Data = ''not json'',
           msg_Header = Map.empty\<rparr>"

definition msg2 :: nats_Msg where
  "msg2 = \<lparr>msg_Subject = ''constellation.entities.org1.updated'', msg_Data = ''{}'',
           msg_Header = Map.empty\<rparr>"

text \<open>A handler that panics on the first sample message and returns on any other.\<close>

definition panic_on_first :: "nats_Msg \<Rightarrow> handler_result" where
  "panic_on_first m = (if msg_Data m = ''not json'' then HPanic [] else HReturn [])"

text \<open>A decoder that accepts the empty object only.\<close>

definition only_empty_object :: "string \<Rightarrow> string + unit" where
  "only_empty_object s = (if s = ''{}'' then Inr () else Inl ''invalid character'')"

text \<open>The manager of \<^verbatim>\<open>NewManager\<close> once its four workers hold their subscriptions.\<close>

definition running_manager :: Manager where
  "running_manager =
     \<lparr>m_workers =
        [\<lparr>w_name = ''TelemetryWorker'', w_sub = True, w_drain_error = None\<rparr>,
         \<lparr>w_name = ''EntityWorker'', w_sub = True, w_drain_error = None\<rparr>,
         \<lparr>w_name = ''EventWorker'', w_sub = True, w_drain_error = None\<rparr>,
         \<lparr>w_name = ''CommandWorker'', w_sub = True, w_drain_error = None\<rparr>],
      m_nc = True\<rparr>"

definition sample_row :: "unit row" where
  "sample_row =
     [''entity_id'' \<mapsto> SqlStr ''e1'', ''org_id'' \<mapsto> SqlStr ''org1'',
      ''status'' \<mapsto> SqlStr ''unknown'', ''created_at'' \<mapsto> SqlStr ''t0'',
      ''updated_at'' \<mapsto> SqlStr ''t0'']"

text \<open>
  The settings of a configuration as the broker holds it, in the same order as
  \<open>stream_settings\<close>.
\<close>

definition nats_settings ::
  "nats_StreamConfig \<Rightarrow> string \<times> RetentionPolicy \<times> DiscardPolicy \<times> int \<times> int \<times> int \<times> int" where
  "nats_settings c =
     (nsc_Name c, nsc_Retention c, nsc_Discard c, sint (nsc_MaxMsgs c), sint (nsc_MaxBytes c),
      sint (nsc_MaxAge c), sint (nsc_MaxMsgSize c))"




text \<open>
  A broker that already holds the entities stream and, on it, a consumer named
  \<open>entity-processor\<close> whose settings differ from the ones the code would create.
\<close>

definition old_consumer :: nats_ConsumerConfig where
  "old_consumer =
     \<lparr>ncc_Durable = ''entity-processor'', ncc_FilterSubject = ''constellation.entities.org1.>'',
      ncc_AckPolicy = AckExplicitPolicy, ncc_AckWait = 5 * Second, ncc_MaxDeliver = 10,
      ncc_MaxAckPending = 1, ncc_DeliverPolicy = DeliverNewPolicy,
      ncc_ReplayPolicy = ReplayInstantPolicy\<rparr>"

definition broker_with_stream :: jetstream where
  "broker_with_stream =
     fresh_broker
       \<lparr>js_streams := [''CONSTELLATION_ENTITIES'' \<mapsto> to_nats_config (hd constellation_streams)]\<rparr>"

definition nats_with_stream :: EmbeddedNATS where
  "nats_with_stream = started_nats\<lparr>en_js := Some broker_with_stream\<rparr>"

definition broker_with_consumer :: jetstream where
  "broker_with_consumer =
     broker_with_stream
       \<lparr>js_consumers := [(''CONSTELLATION_ENTITIES'', ''entity-processor'') \<mapsto> old_consumer]\<rparr>"

definition nats_with_consumer :: EmbeddedNATS where
  "nats_with_consumer = started_nats\<lparr>en_js := Some broker_with_consumer\<rparr>"

text \<open>
  A broker that fills in an empty subject list with the stream's name and a zero
  duplicate window with two minutes, holding the entities stream; and a definition of
  that stream that leaves both out.
\<close>

definition fill_defaults :: "nats_StreamConfig \<Rightarrow> nats_StreamConfig" where
  "fill_defaults c =
     c\<lparr>nsc_Subjects := (if nsc_Subjects c = [] then [nsc_Name c] else nsc_Subjects c),
       nsc_Duplicates := (if nsc_Duplicates c = 0 then 2 * Minute else nsc_Duplicates c)\<rparr>"

definition defaulting_broker :: jetstream where
  "defaulting_broker = broker_with_stream\<lparr>js_normalise := fill_defaults\<rparr>"

definition defaulting_nats :: EmbeddedNATS where
  "defaulting_nats = started_nats\<lparr>en_js := Some defaulting_broker\<rparr>"

definition bare_stream :: StreamConfig where
  "bare_stream =
     \<lparr>sc_Name = ''CONSTELLATION_ENTITIES'', sc_Subjects = [], sc_Retention = LimitsPolicy,
      sc_MaxMsgs = 500, sc_MaxBytes = 1024, sc_MaxAge = Hour, sc_MaxMsgSize = 64,
      sc_Replicas = 1, sc_DuplicateWindow = 0, sc_AllowRollup = False, sc_AllowDirect = False,
      sc_DiscardPolicy = DiscardOld\<rparr>"

text \<open>
  A table of stream configurations after one more definition is stored under its name,
  in the normal form \<open>N\<close> of the broker.
\<close>

definition with_stream ::
  "(nats_StreamConfig \<Rightarrow> nats_StreamConfig) \<Rightarrow> (string \<rightharpoonup> nats_StreamConfig) \<Rightarrow> StreamConfig
     \<Rightarrow> (string \<rightharpoonup> nats_StreamConfig)" where
  "with_stream N m s = m(sc_Name s \<mapsto> N (to_nats_config s))"

section \<open>Properties\<close>

subsection \<open>Decimal rendering is injective\<close>

lemma below_ten: "d < 10 \<Longrightarrow> d \<in> {0, 1, 2, 3, 4, 5, 6, 7, 8, 9::nat}"
  by auto

lemma digit_val_digit_char: "d < 10 \<Longrightarrow> digit_val (digit_char d) = d"
  by (drule below_ten) (auto simp: digit_val_def digit_char_def)

lemma digit_char_not_minus: "d < 10 \<Longrightarrow> digit_char d \<noteq> CHR ''-''"
  by (drule below_ten) (auto simp: digit_char_def)

lemma undec_nat_dec_nat: "undec_nat (dec_nat n) = n"
  unfolding undec_nat_def
proof (induction n rule: dec_nat.induct)
  case (1 n)
  show ?case
  proof (cases "n < 10")
    case True
    then show ?thesis by (subst dec_nat.simps) (simp add: digit_val_digit_char)
  next
    case False
    with 1 show ?thesis
      by (subst dec_nat.simps) (simp add: digit_val_digit_char)
  qed
qed

lemma dec_nat_inj: "dec_nat m = dec_nat n \<longleftrightarrow> m = n"
  by (metis undec_nat_dec_nat)

lemma dec_nat_digits: "c \<in> set (dec_nat n) \<Longrightarrow> c \<noteq> CHR ''-''"
proof (induction n rule: dec_nat.induct)
  case (1 n)
  show ?case
  proof (cases "n < 10")
    case True
    with 1(2) have "c = digit_char n" by (subst (asm) dec_nat.simps) simp
    with True show ?thesis by (simp add: digit_char_not_minus)
  next
    case False
    with 1(2) have "c \<in> set (dec_nat (n div 10)) \<or> c = digit_char (n mod 10)"
      by (subst (asm) dec_nat.simps) auto
    then show ?thesis
    proof
      assume "c \<in> set (dec_nat (n div 10))"
      with 1(1) False show ?thesis by simp
    next
      assume "c = digit_char (n mod 10)"
      then show ?thesis by (simp add: digit_char_not_minus)
    qed
  qed
qed

lemma dec_nat_not_minus: "dec_nat m \<noteq> CHR ''-'' # dec_nat n"
proof
  assume "dec_nat m = CHR ''-'' # dec_nat n"
  then have "CHR ''-'' \<in> set (dec_nat m)" by simp
  then show False using dec_nat_digits by blast
qed

lemma dec_int_inj: "dec_int i = dec_int j \<longleftrightarrow> i = j"
proof
  assume eq: "dec_int i = dec_int j"
  show "i = j"
  proof (cases "i < 0")
    case True
    note i = this
    show ?thesis
    proof (cases "j < 0")
      case True
      with i eq have "nat (- i) = nat (- j)" by (simp add: dec_int_def dec_nat_inj)
      with i True show ?thesis by simp
    next
      case False
      with i eq have "CHR ''-'' # dec_nat (nat (- i)) = dec_nat (nat j)"
        by (simp add: dec_int_def)
      then show ?thesis using dec_nat_not_minus by metis
    qed
  next
    case False
    note i = this
    show ?thesis
    proof (cases "j < 0")
      case True
      with i eq have "dec_nat (nat i) = CHR ''-'' # dec_nat (nat (- j))"
        by (simp add: dec_int_def)
      then show ?thesis using dec_nat_not_minus by metis
    next
      case False
      with i eq have "nat i = nat j" by (simp add: dec_int_def dec_nat_inj)
      with i False show ?thesis by simp
    qed
  qed
qed simp

lemma msgID_of_inj: "msgID_of e t m = msgID_of e t n \<longleftrightarrow> m = n"
  by (auto simp: msgID_of_def dec_int_inj intro: signed_word_eqI)

subsection \<open>Entity events\<close>

lemma entity_event_subject:
  "ev_Subject (entity_event env entity eventType) = EntityCreatedSubject (OrgID entity)"
  by (simp add: entity_event_def Let_def)

lemma publishEntityEvent_sent:
  assumes "nats_available env"
    and "json_Marshal env (entity_event env entity eventType) = Inr d"
  shows "snd (publishEntityEvent env entity eventType) =
     [\<lparr>msg_Subject = EntityCreatedSubject (OrgID entity), msg_Data = d,
       msg_Header =
         [''Nats-Msg-Id'' \<mapsto> msgID_of (EntityID entity) eventType (now_unix_nano env)]\<rparr>]"
  using assms
  by (simp add: publishEntityEvent_def PublishWithDedup_def Let_def entity_event_subject
        split: option.splits)

text \<open>
  Whatever the event type, a call that reaches the broker publishes on the subject of
  creation of the entity's organization.
\<close>

lemma every_event_type_published_on_created_subject:
  assumes "nats_available env"
    and "json_Marshal env (entity_event env entity eventType) = Inr d"
  shows "published_subjects env entity eventType
     = [''constellation.entities.'' @ OrgID entity @ ''.created'']"
  using assms
  by (simp add: published_subjects_def publishEntityEvent_sent EntityCreatedSubject_def
        SubjectEntityCreated_def Sprintf1_def)

text \<open>
  C1. Every entity lifecycle event is meant to go out on the subject whose suffix names
  its kind. The code gives every event the subject of creation: for the sample entity of
  organization \<open>org1\<close>, the update, delete and status-change events are all published on
  \<open>constellation.entities.org1.created\<close>, while the helpers written for the three other
  subjects, which \<^verbatim>\<open>publishEntityEvent\<close> never calls, give the subjects the claim names.
\<close>

theorem events_all_published_on_created_subject:
  "published_subjects (sample_env 100) sample_entity EventTypeUpdated
     = [''constellation.entities.org1.created'']
   \<and> published_subjects (sample_env 100) sample_entity EventTypeDeleted
     = [''constellation.entities.org1.created'']
   \<and> published_subjects (sample_env 100) sample_entity EventTypeStatus
     = [''constellation.entities.org1.created'']
   \<and> EntityUpdatedSubject ''org1'' = ''constellation.entities.org1.updated''
   \<and> EntityDeletedSubject ''org1'' = ''constellation.entities.org1.deleted''
   \<and> EntityStatusSubject ''org1'' = ''constellation.entities.org1.status''"
  by (simp add: published_subjects_def publishEntityEvent_sent sample_env_def sample_entity_def
      EntityCreatedSubject_def EntityUpdatedSubject_def EntityDeletedSubject_def
      EntityStatusSubject_def SubjectEntityCreated_def SubjectEntityUpdated_def
      SubjectEntityDeleted_def SubjectEntityStatus_def Sprintf1_def)

text \<open>
  C2, as the claim states it, fails: two calls for the same entity and the same event
  kind that read the clock one nanosecond apart hand the broker two different
  deduplication keys.
\<close>

theorem dedup_key_differs_on_retry:
  "dedup_keys (sample_env 100) sample_entity EventTypeCreated = [Some ''e1-created-100'']
   \<and> dedup_keys (sample_env 101) sample_entity EventTypeCreated = [Some ''e1-created-101'']
   \<and> dedup_keys (sample_env 100) sample_entity EventTypeCreated
       \<noteq> dedup_keys (sample_env 101) sample_entity EventTypeCreated"
  by (simp add: dedup_keys_def publishEntityEvent_sent sample_env_def sample_entity_def
      msgID_of_def dec_int_def dec_nat.simps digit_char_def EventTypeCreated_def)

text \<open>
  C2, amended. The deduplication key handed to the publish bridge is the entity
  identifier, the event kind and the nanosecond clock reading of the call, joined by
  dashes. Two calls for the same entity and event kind hand over the same key exactly
  when they read the same clock value.
\<close>

theorem dedup_key_same_iff_same_clock:
  assumes "nats_available env" and "nats_available env'"
    and "json_Marshal env (entity_event env entity eventType) = Inr d"
    and "json_Marshal env' (entity_event env' entity eventType) = Inr d'"
  shows "dedup_keys env entity eventType
           = [Some (msgID_of (EntityID entity) eventType (now_unix_nano env))]
     \<and> (dedup_keys env entity eventType = dedup_keys env' entity eventType
          \<longleftrightarrow> now_unix_nano env = now_unix_nano env')"
  using assms by (simp add: dedup_keys_def publishEntityEvent_sent msgID_of_inj)

theorem dedup_key_same_iff_same_clock_witness:
  "nats_available (sample_env 100)
   \<and> nats_available ((sample_env 100)\<lparr>new_uuid := ''u2''\<rparr>)
   \<and> dedup_keys (sample_env 100) sample_entity EventTypeUpdated
       = [Some (msgID_of ''e1'' ''updated'' 100)]
   \<and> dedup_keys (sample_env 100) sample_entity EventTypeUpdated
       = dedup_keys ((sample_env 100)\<lparr>new_uuid := ''u2''\<rparr>) sample_entity EventTypeUpdated"
  using dedup_key_same_iff_same_clock
          [of "sample_env 100" "(sample_env 100)\<lparr>new_uuid := ''u2''\<rparr>" sample_entity
              EventTypeUpdated "''updated''" "''updated''"]
  by (auto simp: sample_env_def sample_entity_def entity_event_def Let_def EventTypeUpdated_def)

subsection \<open>Stream registry\<close>

lemma to_nats_config_Name: "nsc_Name (to_nats_config sc) = sc_Name sc"
  by (simp add: to_nats_config_def)

lemma to_nats_config_fields:
  "to_nats_config sc =
     \<lparr>nsc_Name = sc_Name sc, nsc_Subjects = sc_Subjects sc, nsc_Retention = sc_Retention sc,
      nsc_MaxMsgs = sc_MaxMsgs sc, nsc_MaxBytes = sc_MaxBytes sc, nsc_MaxAge = sc_MaxAge sc,
      nsc_MaxMsgSize = sc_MaxMsgSize sc, nsc_Replicas = sc_Replicas sc,
      nsc_Duplicates = sc_DuplicateWindow sc, nsc_AllowRollup = sc_AllowRollup sc,
      nsc_AllowDirect = sc_AllowDirect sc, nsc_Discard = sc_DiscardPolicy sc\<rparr>"
  by (simp add: to_nats_config_def)

lemma en_upd_same:
  "en_js en = Some j \<Longrightarrow> en_streams en n = Some sc \<Longrightarrow>
   en\<lparr>en_js := Some j, en_streams := (en_streams en)(n \<mapsto> sc)\<rparr> = en"
  by (simp add: map_upd_triv)

lemma AddStream_success_state:
  assumes "en_js en = Some j" and "fst (AddStream en sc) = None"
  shows "\<exists>j'. fst (snd (AddStream en sc))
            = en\<lparr>en_js := Some j', en_streams := (en_streams en)(sc_Name sc \<mapsto> sc)\<rparr>
     \<and> js_streams j' = (js_streams j)(sc_Name sc \<mapsto> js_normalise j (to_nats_config sc))
     \<and> js_normalise j' = js_normalise j \<and> js_ephemerals j' = js_ephemerals j
     \<and> js_lookup_error j' = js_lookup_error j \<and> js_create_error j' = js_create_error j
     \<and> js_update_error j' = js_update_error j \<and> js_consumers j' = js_consumers j
     \<and> js_consumer_error j' = js_consumer_error j"
  using assms
  by (auto simp: AddStream_def Let_def js_StreamInfo_def js_UpdateStream_def js_AddStream_def
        stream_declared_def to_nats_config_Name map_upd_triv
        split: option.splits sum.splits if_splits)

lemma AddStream_failure_state:
  assumes "fst (AddStream en sc) \<noteq> None"
  shows "fst (snd (AddStream en sc)) = en"
  using assms
  by (auto simp: AddStream_def Let_def stream_declared_def split: option.splits sum.splits)

lemma AddStream_declared:
  assumes "en_js en = Some j" and "fst (AddStream en sc) = None"
  shows "declared (fst (snd (AddStream en sc)))
           = (js_streams j)(sc_Name sc \<mapsto> js_normalise j (to_nats_config sc))
     \<and> en_streams (fst (snd (AddStream en sc))) = (en_streams en)(sc_Name sc \<mapsto> sc)"
proof -
  from AddStream_success_state[OF assms] obtain j' where
    "fst (snd (AddStream en sc))
       = en\<lparr>en_js := Some j', en_streams := (en_streams en)(sc_Name sc \<mapsto> sc)\<rparr>"
    "js_streams j' = (js_streams j)(sc_Name sc \<mapsto> js_normalise j (to_nats_config sc))"
    by blast
  then show ?thesis by (simp add: declared_def)
qed

lemma AddStream_again_after_success:
  assumes js: "en_js en = Some j"
    and st: "js_streams j (sc_Name sc) = Some (js_normalise j (to_nats_config sc))"
    and reg: "en_streams en (sc_Name sc) = Some sc"
  shows "fst (snd (AddStream en sc)) = en"
proof (cases "fst (AddStream en sc)")
  case None
  from AddStream_success_state[OF js None] obtain j' where
    e: "fst (snd (AddStream en sc))
          = en\<lparr>en_js := Some j', en_streams := (en_streams en)(sc_Name sc \<mapsto> sc)\<rparr>"
    and s: "js_streams j' = (js_streams j)(sc_Name sc \<mapsto> js_normalise j (to_nats_config sc))"
    and r: "js_normalise j' = js_normalise j" "js_ephemerals j' = js_ephemerals j"
      "js_lookup_error j' = js_lookup_error j" "js_create_error j' = js_create_error j"
      "js_update_error j' = js_update_error j" "js_consumers j' = js_consumers j"
      "js_consumer_error j' = js_consumer_error j" by blast
  from s st have "js_streams j' = js_streams j" by (simp add: map_upd_triv)
  with r have "j' = j" by simp
  with e js reg show ?thesis by (simp add: en_upd_same)
next
  case (Some err)
  then show ?thesis by (simp add: AddStream_failure_state)
qed

lemma AddStream_twice:
  "fst (snd (AddStream (fst (snd (AddStream en sc))) sc)) = fst (snd (AddStream en sc))"
proof (cases "fst (AddStream en sc)")
  case (Some err)
  then have "fst (snd (AddStream en sc)) = en" by (simp add: AddStream_failure_state)
  then show ?thesis by simp
next
  case None
  show ?thesis
  proof (cases "en_js en")
    case None
    then show ?thesis by (simp add: AddStream_def)
  next
    case (Some j)
    let ?en1 = "fst (snd (AddStream en sc))"
    from AddStream_success_state[OF Some None] obtain j' where
      e: "?en1 = en\<lparr>en_js := Some j', en_streams := (en_streams en)(sc_Name sc \<mapsto> sc)\<rparr>"
      and s: "js_streams j' = (js_streams j)(sc_Name sc \<mapsto> js_normalise j (to_nats_config sc))"
      and n: "js_normalise j' = js_normalise j" by blast
    show ?thesis
      by (rule AddStream_again_after_success[where j = j']) (simp_all add: e s n)
  qed
qed

lemma AddStream_absent:
  assumes "en_js en = Some j" and "js_lookup_error j (sc_Name sc) = None"
    and "js_streams j (sc_Name sc) = None"
  shows "fst (AddStream en sc)
     = map_option (\<lambda>e. ''failed to add stream '' @ sc_Name sc @ '': '' @ e)
         (js_create_error j (to_nats_config sc))"
  using assms
  by (auto simp: AddStream_def Let_def js_StreamInfo_def js_AddStream_def to_nats_config_Name
        stream_declared_def split: option.splits sum.splits)

lemma AddStream_present:
  assumes "en_js en = Some j" and "js_lookup_error j (sc_Name sc) = None"
    and "js_streams j (sc_Name sc) = Some old"
  shows "fst (AddStream en sc)
     = map_option (\<lambda>e. ''failed to update stream '' @ sc_Name sc @ '': '' @ e)
         (js_update_error j old (to_nats_config sc))"
  using assms
  by (auto simp: AddStream_def Let_def js_StreamInfo_def js_UpdateStream_def
        to_nats_config_Name stream_declared_def split: option.splits sum.splits)

text \<open>
  C5. \<^verbatim>\<open>AddStream\<close> hands the broker the supplied definition field by field (\<open>cfg\<close>
  below) and looks the stream up by name. When the stream is absent the call succeeds
  exactly when the broker accepts the creation of \<open>cfg\<close>, and when it is present exactly
  when the broker accepts the update to \<open>cfg\<close>. After a successful call the broker holds,
  under that name, \<open>cfg\<close> in the broker's normal form (\<open>cfg\<close> itself when the broker
  leaves it as it is), every other stream is as before, and the local registry holds the
  definition; a failed call changes nothing. A second call with the same definition
  leaves the state the first call left: the broker's configuration and the local registry
  do not change.
\<close>

theorem AddStream_create_or_update_idempotent:
  assumes "en_js en = Some j" and "js_lookup_error j (sc_Name sc) = None"
  shows "(let cfg = \<lparr>nsc_Name = sc_Name sc, nsc_Subjects = sc_Subjects sc,
                      nsc_Retention = sc_Retention sc, nsc_MaxMsgs = sc_MaxMsgs sc,
                      nsc_MaxBytes = sc_MaxBytes sc, nsc_MaxAge = sc_MaxAge sc,
                      nsc_MaxMsgSize = sc_MaxMsgSize sc, nsc_Replicas = sc_Replicas sc,
                      nsc_Duplicates = sc_DuplicateWindow sc,
                      nsc_AllowRollup = sc_AllowRollup sc,
                      nsc_AllowDirect = sc_AllowDirect sc,
                      nsc_Discard = sc_DiscardPolicy sc\<rparr>
          in (js_streams j (sc_Name sc) = None \<longrightarrow>
                fst (AddStream en sc)
                  = map_option (\<lambda>e. ''failed to add stream '' @ sc_Name sc @ '': '' @ e)
                      (js_create_error j cfg))
           \<and> (\<forall>old. js_streams j (sc_Name sc) = Some old \<longrightarrow>
                fst (AddStream en sc)
                  = map_option (\<lambda>e. ''failed to update stream '' @ sc_Name sc @ '': '' @ e)
                      (js_update_error j old cfg))
           \<and> (fst (AddStream en sc) = None \<longrightarrow>
                declared (fst (snd (AddStream en sc)))
                  = (js_streams j)(sc_Name sc \<mapsto> js_normalise j cfg)
                \<and> (js_normalise j cfg = cfg \<longrightarrow>
                     declared (fst (snd (AddStream en sc))) (sc_Name sc) = Some cfg)
                \<and> en_streams (fst (snd (AddStream en sc)))
                    = (en_streams en)(sc_Name sc \<mapsto> sc)))
     \<and> (fst (AddStream en sc) \<noteq> None \<longrightarrow> fst (snd (AddStream en sc)) = en)
     \<and> fst (snd (AddStream (fst (snd (AddStream en sc))) sc)) = fst (snd (AddStream en sc))"
proof -
  have a: "js_streams j (sc_Name sc) = None \<longrightarrow>
      fst (AddStream en sc)
        = map_option (\<lambda>e. ''failed to add stream '' @ sc_Name sc @ '': '' @ e)
            (js_create_error j (to_nats_config sc))"
    using AddStream_absent[OF assms] by blast
  have b: "\<forall>old. js_streams j (sc_Name sc) = Some old \<longrightarrow>
      fst (AddStream en sc)
        = map_option (\<lambda>e. ''failed to update stream '' @ sc_Name sc @ '': '' @ e)
            (js_update_error j old (to_nats_config sc))"
    using AddStream_present[OF assms] by blast
  have c: "fst (AddStream en sc) = None \<longrightarrow>
      declared (fst (snd (AddStream en sc)))
        = (js_streams j)(sc_Name sc \<mapsto> js_normalise j (to_nats_config sc))
      \<and> (js_normalise j (to_nats_config sc) = to_nats_config sc \<longrightarrow>
           declared (fst (snd (AddStream en sc))) (sc_Name sc) = Some (to_nats_config sc))
      \<and> en_streams (fst (snd (AddStream en sc))) = (en_streams en)(sc_Name sc \<mapsto> sc)"
    using AddStream_declared[OF assms(1)] by simp
  have d: "fst (AddStream en sc) \<noteq> None \<longrightarrow> fst (snd (AddStream en sc)) = en"
    using AddStream_failure_state[of en sc] by blast
  note e = AddStream_twice[of en sc]
  from a b c d e show ?thesis
    unfolding Let_def to_nats_config_fields by blast
qed

lemma commands_stream_fields:
  "commands_stream =
     \<lparr>sc_Name = ''CONSTELLATION_COMMANDS'', sc_Subjects = [''constellation.commands.>''],
      sc_Retention = WorkQueuePolicy, sc_MaxMsgs = 10000, sc_MaxBytes = 33554432,
      sc_MaxAge = 900000000000, sc_MaxMsgSize = 32768, sc_Replicas = 1,
      sc_DuplicateWindow = 60000000000, sc_AllowRollup = False, sc_AllowDirect = False,
      sc_DiscardPolicy = DiscardNew\<rparr>"
  by (simp add: commands_stream_def constellation_streams_def Minute_def Second_def)

lemma entities_stream_stored:
  "js_streams defaulting_broker ''CONSTELLATION_ENTITIES''
     = Some (to_nats_config (hd constellation_streams))"
  by (simp add: defaulting_broker_def broker_with_stream_def fresh_broker_def)

theorem AddStream_create_or_update_idempotent_witness:
  "en_js started_nats = Some fresh_broker
   \<and> js_lookup_error fresh_broker (sc_Name commands_stream) = None
   \<and> fst (AddStream started_nats commands_stream) = None
   \<and> declared (fst (snd (AddStream started_nats commands_stream)))
       = [''CONSTELLATION_COMMANDS'' \<mapsto>
            \<lparr>nsc_Name = ''CONSTELLATION_COMMANDS'', nsc_Subjects = [''constellation.commands.>''],
             nsc_Retention = WorkQueuePolicy, nsc_MaxMsgs = 10000, nsc_MaxBytes = 33554432,
             nsc_MaxAge = 900000000000, nsc_MaxMsgSize = 32768, nsc_Replicas = 1,
             nsc_Duplicates = 60000000000, nsc_AllowRollup = False, nsc_AllowDirect = False,
             nsc_Discard = DiscardNew\<rparr>]
   \<and> fst (snd (AddStream (fst (snd (AddStream started_nats commands_stream))) commands_stream))
       = fst (snd (AddStream started_nats commands_stream))
   \<and> en_js defaulting_nats = Some defaulting_broker
   \<and> fst (AddStream defaulting_nats bare_stream) = None
   \<and> declared (fst (snd (AddStream defaulting_nats bare_stream)))
       = [''CONSTELLATION_ENTITIES'' \<mapsto>
            \<lparr>nsc_Name = ''CONSTELLATION_ENTITIES'', nsc_Subjects = [''CONSTELLATION_ENTITIES''],
             nsc_Retention = LimitsPolicy, nsc_MaxMsgs = 500, nsc_MaxBytes = 1024,
             nsc_MaxAge = 3600000000000, nsc_MaxMsgSize = 64, nsc_Replicas = 1,
             nsc_Duplicates = 120000000000, nsc_AllowRollup = False, nsc_AllowDirect = False,
             nsc_Discard = DiscardOld\<rparr>]
   \<and> fst (snd (AddStream (fst (snd (AddStream defaulting_nats bare_stream))) bare_stream))
       = fst (snd (AddStream defaulting_nats bare_stream))"
proof -
  have a1: "en_js started_nats = Some fresh_broker"
    by (simp add: started_nats_def)
  have a2: "js_lookup_error fresh_broker (sc_Name commands_stream) = None"
    by (simp add: fresh_broker_def)
  have a3: "js_streams fresh_broker (sc_Name commands_stream) = None"
    by (simp add: fresh_broker_def)
  have a4: "js_create_error fresh_broker c = None" for c
    by (simp add: fresh_broker_def)
  have a5: "js_normalise fresh_broker c = c" for c
    by (simp add: fresh_broker_def)
  have a6: "js_streams fresh_broker = Map.empty"
    by (simp add: fresh_broker_def)
  note first = AddStream_create_or_update_idempotent[OF a1 a2, unfolded Let_def]
  have ok1: "fst (AddStream started_nats commands_stream) = None"
    using first a3 a4 by simp
  have held1: "declared (fst (snd (AddStream started_nats commands_stream)))
       = [''CONSTELLATION_COMMANDS'' \<mapsto>
            \<lparr>nsc_Name = ''CONSTELLATION_COMMANDS'', nsc_Subjects = [''constellation.commands.>''],
             nsc_Retention = WorkQueuePolicy, nsc_MaxMsgs = 10000, nsc_MaxBytes = 33554432,
             nsc_MaxAge = 900000000000, nsc_MaxMsgSize = 32768, nsc_Replicas = 1,
             nsc_Duplicates = 60000000000, nsc_AllowRollup = False, nsc_AllowDirect = False,
             nsc_Discard = DiscardNew\<rparr>]"
    using first ok1 by (simp add: a5 a6 commands_stream_fields)
  have twice1: "fst (snd (AddStream (fst (snd (AddStream started_nats commands_stream)))
                     commands_stream))
       = fst (snd (AddStream started_nats commands_stream))"
    using first by blast
  have b1: "en_js defaulting_nats = Some defaulting_broker"
    by (simp add: defaulting_nats_def started_nats_def)
  have b2: "js_lookup_error defaulting_broker (sc_Name bare_stream) = None"
    by (simp add: defaulting_broker_def broker_with_stream_def fresh_broker_def)
  have b3: "js_streams defaulting_broker (sc_Name bare_stream)
              = Some (to_nats_config (hd constellation_streams))"
    using entities_stream_stored by (simp add: bare_stream_def)
  have b4: "js_update_error defaulting_broker old c = None" for old c
    by (simp add: defaulting_broker_def broker_with_stream_def fresh_broker_def)
  have b5: "js_streams defaulting_broker
              = [''CONSTELLATION_ENTITIES'' \<mapsto> to_nats_config (hd constellation_streams)]"
    by (simp add: defaulting_broker_def broker_with_stream_def fresh_broker_def)
  have b6: "js_normalise defaulting_broker = fill_defaults"
    by (simp add: defaulting_broker_def)
  note second = AddStream_create_or_update_idempotent[OF b1 b2, unfolded Let_def]
  have ok2: "fst (AddStream defaulting_nats bare_stream) = None"
    using second b3 b4 by simp
  have held2: "declared (fst (snd (AddStream defaulting_nats bare_stream)))
       = [''CONSTELLATION_ENTITIES'' \<mapsto>
            \<lparr>nsc_Name = ''CONSTELLATION_ENTITIES'', nsc_Subjects = [''CONSTELLATION_ENTITIES''],
             nsc_Retention = LimitsPolicy, nsc_MaxMsgs = 500, nsc_MaxBytes = 1024,
             nsc_MaxAge = 3600000000000, nsc_MaxMsgSize = 64, nsc_Replicas = 1,
             nsc_Duplicates = 120000000000, nsc_AllowRollup = False, nsc_AllowDirect = False,
             nsc_Discard = DiscardOld\<rparr>]"
    using second ok2
    by (simp add: b5 b6 bare_stream_def fill_defaults_def Hour_def Minute_def Second_def)
  have twice2: "fst (snd (AddStream (fst (snd (AddStream defaulting_nats bare_stream)))
                     bare_stream))
       = fst (snd (AddStream defaulting_nats bare_stream))"
    using second by blast
  from a1 a2 ok1 held1 twice1 b1 ok2 held2 twice2 show ?thesis
    by (simp only: simp_thms)
qed

lemma add_streams_declared:
  "en_js en = Some j \<Longrightarrow> fst (add_streams en scs) = None \<Longrightarrow>
     declared (fst (snd (add_streams en scs)))
       = foldl (with_stream (js_normalise j)) (js_streams j) scs"
proof (induction scs arbitrary: en j)
  case Nil
  then show ?case by (simp add: declared_def)
next
  case (Cons sc scs)
  obtain r en' ls where a: "AddStream en sc = (r, en', ls)"
    by (cases "AddStream en sc") auto
  obtain r' en'' ls' where b: "add_streams en' scs = (r', en'', ls')"
    by (cases "add_streams en' scs") auto
  from Cons.prems a have r: "r = None" by (cases r) simp_all
  with Cons.prems a b have r': "r' = None" by simp
  from AddStream_success_state[OF Cons.prems(1), of sc] a r obtain j' where
    j': "en_js en' = Some j'"
        "js_streams j' = (js_streams j)(sc_Name sc \<mapsto> js_normalise j (to_nats_config sc))"
        "js_normalise j' = js_normalise j"
    by auto
  have step: "with_stream (js_normalise j) (js_streams j) sc = js_streams j'"
    using j'(2) by (simp add: with_stream_def)
  have "declared en'' = foldl (with_stream (js_normalise j')) (js_streams j') scs"
    using Cons.IH[OF j'(1)] b r' by simp
  then have "declared en''
      = foldl (with_stream (js_normalise j)) (with_stream (js_normalise j) (js_streams j) sc) scs"
    by (simp only: step j'(3))
  then show ?case
    using a b r by simp
qed

lemma with_stream_fixed:
  "\<forall>s \<in> set scs. N (to_nats_config s) = to_nats_config s \<Longrightarrow>
     foldl (with_stream N) m scs = foldl (with_stream id) m scs"
  by (induction scs arbitrary: m) (simp_all add: with_stream_def)

lemma constellation_settings_submitted:
  "map (\<lambda>s. nats_settings (to_nats_config s)) constellation_streams =
     [(''CONSTELLATION_ENTITIES'', LimitsPolicy, DiscardOld,
         100000, 256 * 1024 * 1024, 7 * 24 * 3600 * 1000000000, 1024 * 1024),
      (''CONSTELLATION_EVENTS'', WorkQueuePolicy, DiscardOld,
         50000, 128 * 1024 * 1024, 24 * 3600 * 1000000000, 256 * 1024),
      (''CONSTELLATION_TELEMETRY'', InterestPolicy, DiscardOld,
         25000, 64 * 1024 * 1024, 3600 * 1000000000, 64 * 1024),
      (''CONSTELLATION_COMMANDS'', WorkQueuePolicy, DiscardNew,
         10000, 32 * 1024 * 1024, 15 * 60 * 1000000000, 32 * 1024)]"
  by (simp add: constellation_streams_def nats_settings_def to_nats_config_def Hour_def
        Minute_def Second_def)

lemma constellation_settings_local:
  "map stream_settings constellation_streams =
     [(''CONSTELLATION_ENTITIES'', LimitsPolicy, DiscardOld,
         100000, 256 * 1024 * 1024, 7 * 24 * 3600 * 1000000000, 1024 * 1024),
      (''CONSTELLATION_EVENTS'', WorkQueuePolicy, DiscardOld,
         50000, 128 * 1024 * 1024, 24 * 3600 * 1000000000, 256 * 1024),
      (''CONSTELLATION_TELEMETRY'', InterestPolicy, DiscardOld,
         25000, 64 * 1024 * 1024, 3600 * 1000000000, 64 * 1024),
      (''CONSTELLATION_COMMANDS'', WorkQueuePolicy, DiscardNew,
         10000, 32 * 1024 * 1024, 15 * 60 * 1000000000, 32 * 1024)]"
  by (simp add: constellation_streams_def stream_settings_def Hour_def Minute_def Second_def)

lemma constellation_streams_held:
  "map (\<lambda>n. map_option nats_settings (foldl (with_stream id) m constellation_streams n))
     [''CONSTELLATION_ENTITIES'', ''CONSTELLATION_EVENTS'', ''CONSTELLATION_TELEMETRY'',
      ''CONSTELLATION_COMMANDS''] =
     [Some (''CONSTELLATION_ENTITIES'', LimitsPolicy, DiscardOld,
         100000, 256 * 1024 * 1024, 7 * 24 * 3600 * 1000000000, 1024 * 1024),
      Some (''CONSTELLATION_EVENTS'', WorkQueuePolicy, DiscardOld,
         50000, 128 * 1024 * 1024, 24 * 3600 * 1000000000, 256 * 1024),
      Some (''CONSTELLATION_TELEMETRY'', InterestPolicy, DiscardOld,
         25000, 64 * 1024 * 1024, 3600 * 1000000000, 64 * 1024),
      Some (''CONSTELLATION_COMMANDS'', WorkQueuePolicy, DiscardNew,
         10000, 32 * 1024 * 1024, 15 * 60 * 1000000000, 32 * 1024)]"
  by (simp add: constellation_streams_def with_stream_def nats_settings_def to_nats_config_def
        Hour_def Minute_def Second_def)

text \<open>
  C9. \<^verbatim>\<open>CreateConstellationStreams\<close> lists exactly four stream definitions, and hands
  the broker four configurations, with the settings of the table: entities, limits
  retention, discard old, 100000 messages, 256 MB, 7 days, 1 MB; events, work queue,
  discard old, 50000, 128 MB, 24 hours, 256 KB; telemetry, interest, discard old, 25000,
  64 MB, 1 hour, 64 KB; commands, work queue, discard new, 10000, 32 MB, 15 minutes, 32 KB
  (ages in nanoseconds). When the call succeeds, the broker holds these four
  configurations under their names, in its normal form, and its other streams as before;
  when the broker leaves the four as they are, the settings it holds under the four names
  are those of the table.
\<close>

theorem four_streams_with_their_settings:
  assumes "en_js en = Some j"
  shows "map stream_settings constellation_streams =
     [(''CONSTELLATION_ENTITIES'', LimitsPolicy, DiscardOld,
         100000, 256 * 1024 * 1024, 7 * 24 * 3600 * 1000000000, 1024 * 1024),
      (''CONSTELLATION_EVENTS'', WorkQueuePolicy, DiscardOld,
         50000, 128 * 1024 * 1024, 24 * 3600 * 1000000000, 256 * 1024),
      (''CONSTELLATION_TELEMETRY'', InterestPolicy, DiscardOld,
         25000, 64 * 1024 * 1024, 3600 * 1000000000, 64 * 1024),
      (''CONSTELLATION_COMMANDS'', WorkQueuePolicy, DiscardNew,
         10000, 32 * 1024 * 1024, 15 * 60 * 1000000000, 32 * 1024)]
   \<and> map (\<lambda>s. nats_settings (to_nats_config s)) constellation_streams =
     [(''CONSTELLATION_ENTITIES'', LimitsPolicy, DiscardOld,
         100000, 256 * 1024 * 1024, 7 * 24 * 3600 * 1000000000, 1024 * 1024),
      (''CONSTELLATION_EVENTS'', WorkQueuePolicy, DiscardOld,
         50000, 128 * 1024 * 1024, 24 * 3600 * 1000000000, 256 * 1024),
      (''CONSTELLATION_TELEMETRY'', InterestPolicy, DiscardOld,
         25000, 64 * 1024 * 1024, 3600 * 1000000000, 64 * 1024),
      (''CONSTELLATION_COMMANDS'', WorkQueuePolicy, DiscardNew,
         10000, 32 * 1024 * 1024, 15 * 60 * 1000000000, 32 * 1024)]
   \<and> (fst (CreateConstellationStreams en) = None \<longrightarrow>
        declared (fst (snd (CreateConstellationStreams en)))
          = foldl (with_stream (js_normalise j)) (js_streams j) constellation_streams
        \<and> ((\<forall>s \<in> set constellation_streams.
               js_normalise j (to_nats_config s) = to_nats_config s) \<longrightarrow>
            map (\<lambda>n. map_option nats_settings
                        (declared (fst (snd (CreateConstellationStreams en))) n))
              [''CONSTELLATION_ENTITIES'', ''CONSTELLATION_EVENTS'', ''CONSTELLATION_TELEMETRY'',
               ''CONSTELLATION_COMMANDS''] =
              [Some (''CONSTELLATION_ENTITIES'', LimitsPolicy, DiscardOld,
                  100000, 256 * 1024 * 1024, 7 * 24 * 3600 * 1000000000, 1024 * 1024),
               Some (''CONSTELLATION_EVENTS'', WorkQueuePolicy, DiscardOld,
                  50000, 128 * 1024 * 1024, 24 * 3600 * 1000000000, 256 * 1024),
               Some (''CONSTELLATION_TELEMETRY'', InterestPolicy, DiscardOld,
                  25000, 64 * 1024 * 1024, 3600 * 1000000000, 64 * 1024),
               Some (''CONSTELLATION_COMMANDS'', WorkQueuePolicy, DiscardNew,
                  10000, 32 * 1024 * 1024, 15 * 60 * 1000000000, 32 * 1024)]))"
proof (intro conjI impI)
  assume ok: "fst (CreateConstellationStreams en) = None"
  show held: "declared (fst (snd (CreateConstellationStreams en)))
          = foldl (with_stream (js_normalise j)) (js_streams j) constellation_streams"
    using add_streams_declared[OF assms, of constellation_streams] ok
    by (simp add: CreateConstellationStreams_def)
  assume "\<forall>s \<in> set constellation_streams.
            js_normalise j (to_nats_config s) = to_nats_config s"
  then have "foldl (with_stream (js_normalise j)) (js_streams j) constellation_streams
           = foldl (with_stream id) (js_streams j) constellation_streams"
    by (rule with_stream_fixed)
  then show "map (\<lambda>n. map_option nats_settings
                        (declared (fst (snd (CreateConstellationStreams en))) n))
              [''CONSTELLATION_ENTITIES'', ''CONSTELLATION_EVENTS'', ''CONSTELLATION_TELEMETRY'',
               ''CONSTELLATION_COMMANDS''] =
              [Some (''CONSTELLATION_ENTITIES'', LimitsPolicy, DiscardOld,
                  100000, 256 * 1024 * 1024, 7 * 24 * 3600 * 1000000000, 1024 * 1024),
               Some (''CONSTELLATION_EVENTS'', WorkQueuePolicy, DiscardOld,
                  50000, 128 * 1024 * 1024, 24 * 3600 * 1000000000, 256 * 1024),
               Some (''CONSTELLATION_TELEMETRY'', InterestPolicy, DiscardOld,
                  25000, 64 * 1024 * 1024, 3600 * 1000000000, 64 * 1024),
               Some (''CONSTELLATION_COMMANDS'', WorkQueuePolicy, DiscardNew,
                  10000, 32 * 1024 * 1024, 15 * 60 * 1000000000, 32 * 1024)]"
    by (simp only: held constellation_streams_held)
qed (rule constellation_settings_local, rule constellation_settings_submitted)

lemma CreateConstellationStreams_fresh:
  "fst (CreateConstellationStreams started_nats) = None"
  by (simp add: CreateConstellationStreams_def constellation_streams_def started_nats_def
        fresh_broker_def AddStream_def Let_def js_StreamInfo_def js_AddStream_def
        to_nats_config_def stream_declared_def)

theorem four_streams_with_their_settings_witness:
  "en_js started_nats = Some fresh_broker
   \<and> fst (CreateConstellationStreams started_nats) = None
   \<and> dom (declared (fst (snd (CreateConstellationStreams started_nats))))
       = {''CONSTELLATION_ENTITIES'', ''CONSTELLATION_EVENTS'', ''CONSTELLATION_TELEMETRY'',
          ''CONSTELLATION_COMMANDS''}
   \<and> map (\<lambda>n. map_option nats_settings
                 (declared (fst (snd (CreateConstellationStreams started_nats))) n))
        [''CONSTELLATION_ENTITIES'', ''CONSTELLATION_EVENTS'', ''CONSTELLATION_TELEMETRY'',
         ''CONSTELLATION_COMMANDS''] =
        [Some (''CONSTELLATION_ENTITIES'', LimitsPolicy, DiscardOld,
            100000, 268435456, 604800000000000, 1048576),
         Some (''CONSTELLATION_EVENTS'', WorkQueuePolicy, DiscardOld,
            50000, 134217728, 86400000000000, 262144),
         Some (''CONSTELLATION_TELEMETRY'', InterestPolicy, DiscardOld,
            25000, 67108864, 3600000000000, 65536),
         Some (''CONSTELLATION_COMMANDS'', WorkQueuePolicy, DiscardNew,
            10000, 33554432, 900000000000, 32768)]"
proof -
  have a: "en_js started_nats = Some fresh_broker"
    by (simp add: started_nats_def)
  have n: "\<forall>s \<in> set constellation_streams.
             js_normalise fresh_broker (to_nats_config s) = to_nats_config s"
    by (simp add: fresh_broker_def)
  note ok = CreateConstellationStreams_fresh
  note all = four_streams_with_their_settings[OF a]
  note held = all[THEN conjunct2, THEN conjunct2, THEN mp, OF ok]
  have d: "declared (fst (snd (CreateConstellationStreams started_nats)))
             = foldl (with_stream (js_normalise fresh_broker)) (js_streams fresh_broker)
                 constellation_streams"
    by (rule held[THEN conjunct1])
  have "dom (declared (fst (snd (CreateConstellationStreams started_nats))))
       = {''CONSTELLATION_ENTITIES'', ''CONSTELLATION_EVENTS'', ''CONSTELLATION_TELEMETRY'',
          ''CONSTELLATION_COMMANDS''}"
    unfolding d
    by (auto simp: fresh_broker_def constellation_streams_def with_stream_def)
  moreover have "map (\<lambda>n. map_option nats_settings
                 (declared (fst (snd (CreateConstellationStreams started_nats))) n))
        [''CONSTELLATION_ENTITIES'', ''CONSTELLATION_EVENTS'', ''CONSTELLATION_TELEMETRY'',
         ''CONSTELLATION_COMMANDS''] =
        [Some (''CONSTELLATION_ENTITIES'', LimitsPolicy, DiscardOld,
            100000, 268435456, 604800000000000, 1048576),
         Some (''CONSTELLATION_EVENTS'', WorkQueuePolicy, DiscardOld,
            50000, 134217728, 86400000000000, 262144),
         Some (''CONSTELLATION_TELEMETRY'', InterestPolicy, DiscardOld,
            25000, 67108864, 3600000000000, 65536),
         Some (''CONSTELLATION_COMMANDS'', WorkQueuePolicy, DiscardNew,
            10000, 33554432, 900000000000, 32768)]"
    using held[THEN conjunct2, THEN mp, OF n] by simp
  ultimately show ?thesis
    using a ok by (simp only: simp_thms)
qed

subsection \<open>Durable consumers\<close>

lemma durable_consumer_config_fields:
  "durable_consumer_config c f =
     \<lparr>ncc_Durable = c, ncc_FilterSubject = f, ncc_AckPolicy = AckExplicitPolicy,
      ncc_AckWait = 30000000000, ncc_MaxDeliver = 3, ncc_MaxAckPending = 1000,
      ncc_DeliverPolicy = DeliverAllPolicy, ncc_ReplayPolicy = ReplayInstantPolicy\<rparr>"
  by (simp add: durable_consumer_config_def Second_def)

lemma consumer_exists_noop:
  assumes "en_js en = Some j" and "c \<noteq> []" and "js_consumers j (s, c) = Some old"
  shows "state_after en (CreateDurableConsumer en s c f) = en"
  using assms
  by (auto simp: CreateDurableConsumer_def state_after_def Let_def js_ConsumerInfo_def
        js_AddConsumer_def durable_consumer_config_def
        split: option.splits sum.splits if_splits)

lemma consumer_exists_result:
  assumes "en_js en = Some j" and "c \<noteq> []" and "js_consumers j (s, c) = Some old"
    and "js_lookup_error j s = None"
  shows "CreateDurableConsumer en s c f
     = Return (None, en, [''Durable consumer already exists: '' @ c @ '' on stream: '' @ s])"
  using assms
  by (simp add: CreateDurableConsumer_def Let_def js_ConsumerInfo_def)

lemma consumer_absent_created:
  assumes "en_js en = Some j" and "c \<noteq> []" and "js_consumers j (s, c) = None"
    and "js_streams j s \<noteq> None"
    and "js_consumer_error j s (durable_consumer_config c f) = None"
  shows "CreateDurableConsumer en s c f
     = Return (None,
         en\<lparr>en_js := Some (j\<lparr>js_consumers :=
                 (js_consumers j)((s, c) \<mapsto> durable_consumer_config c f)\<rparr>)\<rparr>,
         [''Created durable consumer: '' @ c @ '' on stream: '' @ s])"
  using assms
  by (auto simp: CreateDurableConsumer_def Let_def js_ConsumerInfo_def js_AddConsumer_def
        durable_consumer_config_def
        split: option.splits sum.splits if_splits)

lemma consumer_absent_no_stream:
  assumes "en_js en = Some j" and "c \<noteq> []" and "js_consumers j (s, c) = None"
    and "js_streams j s = None"
  shows "CreateDurableConsumer en s c f
     = Return (Some (''failed to create consumer '' @ c @ '': nats: stream not found''), en, [])"
  using assms
  by (auto simp: CreateDurableConsumer_def Let_def js_ConsumerInfo_def js_AddConsumer_def
        durable_consumer_config_def
        split: option.splits sum.splits if_splits)

lemma consumer_absent_refused:
  assumes "en_js en = Some j" and "c \<noteq> []" and "js_consumers j (s, c) = None"
    and "js_streams j s \<noteq> None"
    and "js_consumer_error j s (durable_consumer_config c f) = Some err"
  shows "CreateDurableConsumer en s c f
     = Return (Some (''failed to create consumer '' @ c @ '': '' @ err), en, [])"
  using assms
  by (auto simp: CreateDurableConsumer_def Let_def js_ConsumerInfo_def js_AddConsumer_def
        durable_consumer_config_def
        split: option.splits sum.splits if_splits)

lemma consumer_twice:
  assumes js: "en_js en = Some j" and c: "c \<noteq> []"
  shows "state_after (state_after en (CreateDurableConsumer en s c f))
      (CreateDurableConsumer (state_after en (CreateDurableConsumer en s c f)) s c f)
   = state_after en (CreateDurableConsumer en s c f)"
proof (cases "js_consumers j (s, c)")
  case (Some old)
  with js c have "state_after en (CreateDurableConsumer en s c f) = en"
    by (rule consumer_exists_noop)
  then show ?thesis by simp
next
  case None
  note absent = this
  show ?thesis
  proof (cases "js_streams j s")
    case None
    from consumer_absent_no_stream[OF js c absent None]
    show ?thesis by (simp add: state_after_def)
  next
    case (Some st)
    then have present: "js_streams j s \<noteq> None" by simp
    show ?thesis
    proof (cases "js_consumer_error j s (durable_consumer_config c f)")
      case (Some err)
      from consumer_absent_refused[OF js c absent present Some]
      show ?thesis by (simp add: state_after_def)
    next
      case None
      let ?j' = "j\<lparr>js_consumers := (js_consumers j)((s, c) \<mapsto> durable_consumer_config c f)\<rparr>"
      let ?en' = "en\<lparr>en_js := Some ?j'\<rparr>"
      from consumer_absent_created[OF js c absent present None]
      have first: "state_after en (CreateDurableConsumer en s c f) = ?en'"
        by (simp add: state_after_def)
      have "state_after ?en' (CreateDurableConsumer ?en' s c f) = ?en'"
        by (rule consumer_exists_noop[where j = ?j' and old = "durable_consumer_config c f"])
           (simp_all add: c)
      with first show ?thesis by simp
    qed
  qed
qed

text \<open>
  A call without a durable name is outside the claim: it adds a nameless consumer each
  time, so two calls leave two of them.
\<close>

lemma nameless_consumer_added_each_time:
  assumes "en_js en = Some j" and "js_streams j s \<noteq> None"
    and "js_consumer_error j s (durable_consumer_config [] f) = None"
  shows "CreateDurableConsumer en s [] f
     = Return (None,
         en\<lparr>en_js := Some (j\<lparr>js_ephemerals :=
                 js_ephemerals j @ [(s, durable_consumer_config [] f)]\<rparr>)\<rparr>,
         [''Created durable consumer:  on stream: '' @ s])"
  using assms
  by (auto simp: CreateDurableConsumer_def Let_def js_ConsumerInfo_def js_AddConsumer_def
        durable_consumer_config_def split: option.splits)

text \<open>
  C6. For every stream and every durable (non-empty) consumer name: when a consumer of
  that name exists on the stream, \<^verbatim>\<open>CreateDurableConsumer\<close> leaves the whole state as it
  was, whatever configuration the existing consumer has, and (the lookup answering)
  returns nil after logging that the consumer exists. When none exists, the call asks
  the broker for a consumer with the fixed configuration \<open>cfg\<close> below: if the stream
  exists and the broker accepts, the consumer is stored under that name with exactly
  \<open>cfg\<close> and the call returns nil; if the stream is missing or the broker refuses, the
  call returns the error and changes nothing. A second call changes nothing the first
  one left.
\<close>

theorem CreateDurableConsumer_noop_when_present:
  assumes "en_js en = Some j" and "c \<noteq> []"
  shows "(let cfg = \<lparr>ncc_Durable = c, ncc_FilterSubject = f, ncc_AckPolicy = AckExplicitPolicy,
                      ncc_AckWait = 30000000000, ncc_MaxDeliver = 3, ncc_MaxAckPending = 1000,
                      ncc_DeliverPolicy = DeliverAllPolicy,
                      ncc_ReplayPolicy = ReplayInstantPolicy\<rparr>
          in (\<forall>old. js_consumers j (s, c) = Some old \<longrightarrow>
                state_after en (CreateDurableConsumer en s c f) = en
                \<and> (js_lookup_error j s = None \<longrightarrow>
                     CreateDurableConsumer en s c f
                       = Return (None, en,
                           [''Durable consumer already exists: '' @ c @ '' on stream: '' @ s])))
           \<and> (js_consumers j (s, c) = None \<and> js_streams j s \<noteq> None
                \<and> js_consumer_error j s cfg = None \<longrightarrow>
                CreateDurableConsumer en s c f
                  = Return (None,
                      en\<lparr>en_js := Some (j\<lparr>js_consumers := (js_consumers j)((s, c) \<mapsto> cfg)\<rparr>)\<rparr>,
                      [''Created durable consumer: '' @ c @ '' on stream: '' @ s]))
           \<and> (js_consumers j (s, c) = None \<and> js_streams j s = None \<longrightarrow>
                CreateDurableConsumer en s c f
                  = Return (Some (''failed to create consumer '' @ c
                                    @ '': nats: stream not found''), en, []))
           \<and> (\<forall>err. js_consumers j (s, c) = None \<and> js_streams j s \<noteq> None
                \<and> js_consumer_error j s cfg = Some err \<longrightarrow>
                CreateDurableConsumer en s c f
                  = Return (Some (''failed to create consumer '' @ c @ '': '' @ err), en, [])))
     \<and> state_after (state_after en (CreateDurableConsumer en s c f))
          (CreateDurableConsumer (state_after en (CreateDurableConsumer en s c f)) s c f)
        = state_after en (CreateDurableConsumer en s c f)"
  unfolding Let_def durable_consumer_config_fields[symmetric]
  using consumer_exists_noop[OF assms] consumer_exists_result[OF assms]
    consumer_absent_created[OF assms] consumer_absent_no_stream[OF assms]
    consumer_absent_refused[OF assms] consumer_twice[OF assms, of s f]
  by blast

theorem CreateDurableConsumer_noop_when_present_witness:
  "en_js nats_with_consumer = Some broker_with_consumer
   \<and> ConsumerEntityProcessor \<noteq> []
   \<and> js_consumers broker_with_consumer (StreamEntities, ConsumerEntityProcessor)
       = Some old_consumer
   \<and> old_consumer \<noteq> durable_consumer_config ConsumerEntityProcessor SubjectEntitiesAll
   \<and> CreateDurableConsumer nats_with_consumer StreamEntities ConsumerEntityProcessor
         SubjectEntitiesAll
       = Return (None, nats_with_consumer,
           [''Durable consumer already exists: entity-processor on stream: CONSTELLATION_ENTITIES''])
   \<and> consumers_of
         (state_after nats_with_consumer
            (CreateDurableConsumer nats_with_consumer StreamEntities ConsumerEntityProcessor
               SubjectEntitiesAll))
         (StreamEntities, ConsumerEntityProcessor)
       = Some old_consumer
   \<and> en_js nats_with_stream = Some broker_with_stream
   \<and> js_consumers broker_with_stream (StreamEntities, ConsumerEntityProcessor) = None
   \<and> CreateDurableConsumer nats_with_stream StreamEntities ConsumerEntityProcessor
         SubjectEntitiesAll
       = Return (None,
           nats_with_stream
             \<lparr>en_js := Some (broker_with_stream
                \<lparr>js_consumers :=
                   [(''CONSTELLATION_ENTITIES'', ''entity-processor'') \<mapsto>
                      \<lparr>ncc_Durable = ''entity-processor'',
                       ncc_FilterSubject = ''constellation.entities.>'',
                       ncc_AckPolicy = AckExplicitPolicy, ncc_AckWait = 30000000000,
                       ncc_MaxDeliver = 3, ncc_MaxAckPending = 1000,
                       ncc_DeliverPolicy = DeliverAllPolicy,
                       ncc_ReplayPolicy = ReplayInstantPolicy\<rparr>]\<rparr>)\<rparr>,
           [''Created durable consumer: entity-processor on stream: CONSTELLATION_ENTITIES''])"
proof -
  have a: "en_js nats_with_consumer = Some broker_with_consumer"
    by (simp add: nats_with_consumer_def started_nats_def)
  have ne: "ConsumerEntityProcessor \<noteq> []"
    by (simp add: ConsumerEntityProcessor_def)
  have b: "js_consumers broker_with_consumer (StreamEntities, ConsumerEntityProcessor)
             = Some old_consumer"
    by (simp add: broker_with_consumer_def broker_with_stream_def fresh_broker_def
          StreamEntities_def ConsumerEntityProcessor_def)
  have c: "js_lookup_error broker_with_consumer StreamEntities = None"
    by (simp add: broker_with_consumer_def broker_with_stream_def fresh_broker_def)
  have d: "old_consumer \<noteq> durable_consumer_config ConsumerEntityProcessor SubjectEntitiesAll"
    by (simp add: old_consumer_def durable_consumer_config_def)
  note present = CreateDurableConsumer_noop_when_present
         [OF a ne, of SubjectEntitiesAll StreamEntities, unfolded Let_def]
  from present b c
  have e: "state_after nats_with_consumer
             (CreateDurableConsumer nats_with_consumer StreamEntities ConsumerEntityProcessor
                SubjectEntitiesAll) = nats_with_consumer"
    and f: "CreateDurableConsumer nats_with_consumer StreamEntities ConsumerEntityProcessor
              SubjectEntitiesAll
            = Return (None, nats_with_consumer,
                [''Durable consumer already exists: '' @ ConsumerEntityProcessor
                   @ '' on stream: '' @ StreamEntities])"
    by blast+
  have g: "consumers_of nats_with_consumer (StreamEntities, ConsumerEntityProcessor)
             = Some old_consumer"
    using a b by (simp add: consumers_of_def)
  have a': "en_js nats_with_stream = Some broker_with_stream"
    by (simp add: nats_with_stream_def started_nats_def)
  have b': "js_consumers broker_with_stream (StreamEntities, ConsumerEntityProcessor) = None"
    by (simp add: broker_with_stream_def fresh_broker_def)
  have b'': "js_consumers broker_with_stream = Map.empty"
    by (simp add: broker_with_stream_def fresh_broker_def)
  have c': "js_streams broker_with_stream StreamEntities \<noteq> None"
    by (simp add: broker_with_stream_def fresh_broker_def StreamEntities_def)
  have d': "js_consumer_error broker_with_stream s cfg = None" for s cfg
    by (simp add: broker_with_stream_def fresh_broker_def)
  note absent = CreateDurableConsumer_noop_when_present
         [OF a' ne, of SubjectEntitiesAll StreamEntities, unfolded Let_def]
  from absent b' c' d'
  have h: "CreateDurableConsumer nats_with_stream StreamEntities ConsumerEntityProcessor
             SubjectEntitiesAll
       = Return (None,
           nats_with_stream
             \<lparr>en_js := Some (broker_with_stream
                \<lparr>js_consumers :=
                   (js_consumers broker_with_stream)
                     ((StreamEntities, ConsumerEntityProcessor) \<mapsto>
                      \<lparr>ncc_Durable = ConsumerEntityProcessor,
                       ncc_FilterSubject = SubjectEntitiesAll,
                       ncc_AckPolicy = AckExplicitPolicy, ncc_AckWait = 30000000000,
                       ncc_MaxDeliver = 3, ncc_MaxAckPending = 1000,
                       ncc_DeliverPolicy = DeliverAllPolicy,
                       ncc_ReplayPolicy = ReplayInstantPolicy\<rparr>)\<rparr>)\<rparr>,
           [''Created durable consumer: '' @ ConsumerEntityProcessor @ '' on stream: ''
              @ StreamEntities])"
    by blast
  show ?thesis
    using a ne b d e f g a' b' h
    by (simp add: StreamEntities_def ConsumerEntityProcessor_def SubjectEntitiesAll_def b'')
qed

subsection \<open>Workers\<close>

lemma ack_calls_append: "ack_calls (xs @ ys) = ack_calls xs @ ack_calls ys"
  by (induction xs rule: ack_calls.induct) simp_all

lemma ack_calls_logs: "ack_calls (map LogLine ls) = []"
  by (induction ls) simp_all

lemma ack_calls_ack_message: "ack_calls (ack_message name ack m) = [m]"
  by (simp add: ack_message_def split: option.splits)

lemma process_batch_acks:
  "ack_calls (fst (process_batch name h ack msgs)) = takeWhile (returns h) msgs"
  by (induction msgs)
     (auto simp: returns_def ack_calls_append ack_calls_logs ack_calls_ack_message
           split: handler_result.splits prod.splits)

lemma process_batch_panicked:
  "snd (process_batch name h ack msgs) = (\<not> list_all (returns h) msgs)"
  by (induction msgs) (auto simp: returns_def split: handler_result.splits prod.splits)


lemma log_handler_returns: "returns (log_handler name noun Noun u i) m"
  by (simp add: returns_def log_handler_def)

text \<open>
  C4, as the claim states it, fails: when the handler panics on the first message of a
  batch of two, no acknowledgment is attempted on the second one, which the handler
  would have handled.
\<close>

theorem panic_stops_the_batch:
  "returns panic_on_first msg2
   \<and> process_batch ''EntityWorker'' panic_on_first (\<lambda>m. None) [msg1, msg2] = ([], True)
   \<and> ack_calls (fst (process_batch ''EntityWorker'' panic_on_first (\<lambda>m. None) [msg1, msg2])) = []"
  by (simp add: returns_def panic_on_first_def msg1_def msg2_def)

text \<open>
  C4, amended. For every fetched batch the worker calls the acknowledgment, in order, on
  exactly the messages that precede the first one on which the handler panics: on every
  message of the batch when the handler returns on all of them, whatever the handler
  made of the payload and whether or not an earlier acknowledgment failed, and the loop
  then goes on with its next pass. A handler has no error to return, and a panic is not
  recovered: when the handler panics on a message of the batch, the loop ends there,
  crashed, with the effects of the batch up to the panic and none of the passes that
  would follow.
\<close>

theorem acks_exactly_until_first_panic:
  "ack_calls (fst (process_batch name h ack msgs)) = takeWhile (returns h) msgs
   \<and> snd (process_batch name h ack msgs) = (\<not> list_all (returns h) msgs)
   \<and> (list_all (returns h) msgs \<longrightarrow>
        ack_calls (fst (process_batch name h ack msgs)) = msgs
        \<and> worker_loop name h ack (Fetched msgs None # rest)
            = (fst (process_batch name h ack msgs) @ fst (worker_loop name h ack rest),
               snd (worker_loop name h ack rest)))
   \<and> (\<not> list_all (returns h) msgs \<longrightarrow>
        worker_loop name h ack (Fetched msgs None # rest)
          = (fst (process_batch name h ack msgs), Crashed)
        \<and> worker_loop name h ack (Fetched msgs (Some ErrTimeout) # rest)
          = (fst (process_batch name h ack msgs), Crashed)
        \<and> ack_calls (fst (worker_loop name h ack (Fetched msgs None # rest)))
          = takeWhile (returns h) msgs)"
proof -
  note c1 = process_batch_acks[of name h ack msgs]
  note c2 = process_batch_panicked[of name h ack msgs]
  have c3: "list_all (returns h) msgs \<longrightarrow>
        ack_calls (fst (process_batch name h ack msgs)) = msgs
        \<and> worker_loop name h ack (Fetched msgs None # rest)
            = (fst (process_batch name h ack msgs) @ fst (worker_loop name h ack rest),
               snd (worker_loop name h ack rest))"
  proof
    assume all: "list_all (returns h) msgs"
    then have "takeWhile (returns h) msgs = msgs"
      by (simp add: list_all_iff)
    then have "ack_calls (fst (process_batch name h ack msgs)) = msgs"
      using c1 by simp
    moreover have "worker_loop name h ack (Fetched msgs None # rest)
        = (fst (process_batch name h ack msgs) @ fst (worker_loop name h ack rest),
           snd (worker_loop name h ack rest))"
      using c2 all
      by (cases "process_batch name h ack msgs"; cases "worker_loop name h ack rest") simp
    ultimately show "ack_calls (fst (process_batch name h ack msgs)) = msgs
        \<and> worker_loop name h ack (Fetched msgs None # rest)
            = (fst (process_batch name h ack msgs) @ fst (worker_loop name h ack rest),
               snd (worker_loop name h ack rest))"
      by (rule conjI)
  qed
  have c4: "\<not> list_all (returns h) msgs \<longrightarrow>
        worker_loop name h ack (Fetched msgs None # rest)
          = (fst (process_batch name h ack msgs), Crashed)
        \<and> worker_loop name h ack (Fetched msgs (Some ErrTimeout) # rest)
          = (fst (process_batch name h ack msgs), Crashed)
        \<and> ack_calls (fst (worker_loop name h ack (Fetched msgs None # rest)))
          = takeWhile (returns h) msgs"
  proof
    assume panic: "\<not> list_all (returns h) msgs"
    have w1: "worker_loop name h ack (Fetched msgs None # rest)
          = (fst (process_batch name h ack msgs), Crashed)"
      using c2 panic by (cases "process_batch name h ack msgs") simp
    have w2: "worker_loop name h ack (Fetched msgs (Some ErrTimeout) # rest)
          = (fst (process_batch name h ack msgs), Crashed)"
      using c2 panic by (cases "process_batch name h ack msgs") simp
    have w3: "ack_calls (fst (worker_loop name h ack (Fetched msgs None # rest)))
          = takeWhile (returns h) msgs"
      by (simp only: w1 fst_conv c1)
    from w1 w2 w3
    show "worker_loop name h ack (Fetched msgs None # rest)
          = (fst (process_batch name h ack msgs), Crashed)
        \<and> worker_loop name h ack (Fetched msgs (Some ErrTimeout) # rest)
          = (fst (process_batch name h ack msgs), Crashed)
        \<and> ack_calls (fst (worker_loop name h ack (Fetched msgs None # rest)))
          = takeWhile (returns h) msgs"
      by (intro conjI)
  qed
  from c1 c2 c3 c4 show ?thesis
    by (intro conjI)
qed

theorem acks_exactly_until_first_panic_witness:
  "list_all (returns (EntityWorker_handler only_empty_object (\<lambda>_. ''{}''))) [msg1, msg2]
   \<and> ack_calls (fst (process_batch ''EntityWorker''
        (EntityWorker_handler only_empty_object (\<lambda>_. ''{}''))
        (\<lambda>m. if m = msg1 then Some ''nats: timeout'' else None) [msg1, msg2])) = [msg1, msg2]
   \<and> \<not> list_all (returns panic_on_first) [msg2, msg1, msg2]
   \<and> worker_loop ''EntityWorker'' panic_on_first (\<lambda>m. None)
        [Fetched [msg2, msg1, msg2] None, Fetched [msg2] None, Cancelled]
       = ([AckCall msg2], Crashed)"
proof -
  have r: "list_all (returns (EntityWorker_handler only_empty_object (\<lambda>_. ''{}'')))
             [msg1, msg2]"
    by (simp add: EntityWorker_handler_def log_handler_returns)
  have p: "\<not> list_all (returns panic_on_first) [msg2, msg1, msg2]"
    by (simp add: returns_def panic_on_first_def msg1_def msg2_def)
  have b: "fst (process_batch ''EntityWorker'' panic_on_first (\<lambda>m. None) [msg2, msg1, msg2])
             = [AckCall msg2]"
    by (simp add: panic_on_first_def msg1_def msg2_def ack_message_def)
  from acks_exactly_until_first_panic
         [of "''EntityWorker''" "EntityWorker_handler only_empty_object (\<lambda>_. ''{}'')"
             "\<lambda>m. if m = msg1 then Some ''nats: timeout'' else None" "[msg1, msg2]" "[]"] r
  have one: "ack_calls (fst (process_batch ''EntityWorker''
        (EntityWorker_handler only_empty_object (\<lambda>_. ''{}''))
        (\<lambda>m. if m = msg1 then Some ''nats: timeout'' else None) [msg1, msg2])) = [msg1, msg2]"
    by blast
  from acks_exactly_until_first_panic
         [of "''EntityWorker''" panic_on_first "\<lambda>m. None" "[msg2, msg1, msg2]"
             "[Fetched [msg2] None, Cancelled]"] p
  have two: "worker_loop ''EntityWorker'' panic_on_first (\<lambda>m. None)
        [Fetched [msg2, msg1, msg2] None, Fetched [msg2] None, Cancelled]
       = (fst (process_batch ''EntityWorker'' panic_on_first (\<lambda>m. None) [msg2, msg1, msg2]),
          Crashed)"
    by blast
  from r one p two b show ?thesis
    by (simp only: simp_thms)
qed







subsection \<open>Shutdown\<close>

lemma actions_append: "actions (xs @ ys) = actions xs @ actions ys"
  by (simp add: actions_def)

lemma actions_Nil: "actions [] = []"
  by (simp add: actions_def)

lemma actions_Cons: "actions (x # xs) = (if is_note x then actions xs else x # actions xs)"
  by (simp add: actions_def)

lemma actions_stop_worker:
  "actions (stop_worker w) = (if w_sub w then [Drain (w_name w)] else [])"
  by (simp add: stop_worker_def BaseWorker_Stop_def actions_append actions_Cons actions_Nil
        split: option.splits)

lemma actions_stop_workers:
  "actions (concat (map stop_worker ws)) = map (\<lambda>w. Drain (w_name w)) (filter w_sub ws)"
  by (induction ws) (simp_all add: actions_append actions_stop_worker actions_Nil)

lemma actions_Manager_Stop:
  "actions (Manager_Stop m) =
     CancelWorkers # map (\<lambda>w. Drain (w_name w)) (filter w_sub (m_workers m))
     @ [WaitWorkers] @ (if m_nc m then [ConnClose ByManager] else [])"
  by (simp add: Manager_Stop_def actions_append actions_stop_workers actions_Cons actions_Nil)

text \<open>
  C3, as the claim states it, fails. With the four workers running, the subscriptions
  are drained (positions 2 to 5) before the wait for the workers (position 6), and the
  worker manager closes the shared connection (position 7) before the broker handle does
  (position 8).
\<close>

theorem shutdown_drains_before_waiting:
  "actions (main_shutdown None (Some running_manager) (Some started_nats)) =
     [HTTPShutdown, CancelWorkers,
      Drain ''TelemetryWorker'', Drain ''EntityWorker'', Drain ''EventWorker'',
      Drain ''CommandWorker'',
      WaitWorkers, ConnClose ByManager, ConnClose ByEmbeddedNATS,
      ServerShutdown, ServerWaitForShutdown]
   \<and> first_index (Drain ''TelemetryWorker'')
        (actions (main_shutdown None (Some running_manager) (Some started_nats))) = Some 2
   \<and> first_index WaitWorkers
        (actions (main_shutdown None (Some running_manager) (Some started_nats))) = Some 6
   \<and> first_index (ConnClose ByManager)
        (actions (main_shutdown None (Some running_manager) (Some started_nats))) = Some 7
   \<and> first_index (ConnClose ByEmbeddedNATS)
        (actions (main_shutdown None (Some running_manager) (Some started_nats))) = Some 8"
  by (simp add: main_shutdown_def actions_append actions_Manager_Stop EmbeddedNATS_Shutdown_def
        actions_Cons actions_Nil running_manager_def started_nats_def)

text \<open>
  C3, amended. On shutdown, after the HTTP server, the steps occur in this order:
  cancellation is signalled to all workers; the subscription of each worker that has one
  is drained, in the order of the workers; the manager waits for every worker to return;
  the worker manager closes the shared client connection; the broker handle closes the
  connection again and then stops the broker process and waits for it.
\<close>

theorem shutdown_order:
  "actions (main_shutdown http_error (Some m) (Some en)) =
     [HTTPShutdown, CancelWorkers]
     @ map (\<lambda>w. Drain (w_name w)) (filter w_sub (m_workers m))
     @ [WaitWorkers]
     @ (if m_nc m then [ConnClose ByManager] else [])
     @ (if en_nc en then [ConnClose ByEmbeddedNATS] else [])
     @ (if en_server en then [ServerShutdown, ServerWaitForShutdown] else [])"
  by (simp add: main_shutdown_def actions_append actions_Manager_Stop EmbeddedNATS_Shutdown_def
        actions_Cons actions_Nil split: option.splits)

subsection \<open>Entity updates\<close>

lemma recognized_keys_set:
  "set recognized_keys =
     {''status'', ''priority'', ''entity_type'', ''is_live'', ''latitude'', ''longitude'',
      ''altitude'', ''heading'', ''velocity'', ''metadata'', ''components'', ''tags''}"
  by (simp add: recognized_keys_def)

lemma recognized_key_no_blank: "k \<in> set recognized_keys \<Longrightarrow> CHR '' '' \<notin> set k"
  by (auto simp: recognized_keys_def)

lemma split_words_nonempty: "split_words s \<noteq> []"
  by (induction s) (auto split: list.splits)

lemma split_words_blank: "split_words (a @ CHR '' '' # b) = split_words a @ split_words b"
proof (induction a)
  case Nil
  show ?case by simp
next
  case (Cons c a)
  obtain w ws where w: "split_words a = w # ws"
    using split_words_nonempty[of a] by (cases "split_words a") auto
  show ?case
    using Cons w by simp
qed

lemma split_words_word: "CHR '' '' \<notin> set w \<Longrightarrow> split_words w = [w]"
  by (induction w) auto

lemma words_assignment_more:
  assumes "CHR '' '' \<notin> set c"
  shows "split_words (c @ '' = ?, '' @ r) = c # ''='' # ''?,'' # split_words r"
proof -
  have w1: "split_words ''='' = [''='']" by simp
  have w2: "split_words ''?,'' = [''?,'']" by simp
  have "split_words (c @ '' = ?, '' @ r)
      = split_words (c @ CHR '' '' # (''='' @ CHR '' '' # (''?,'' @ CHR '' '' # r)))"
    by simp
  also have "\<dots> = split_words c @ split_words ''='' @ split_words ''?,'' @ split_words r"
    by (simp only: split_words_blank)
  also have "\<dots> = [c] @ [''=''] @ [''?,''] @ split_words r"
    by (simp only: split_words_word[OF assms] w1 w2)
  finally show ?thesis by simp
qed

lemma words_where_clause:
  "split_words ''= ? WHERE org_id = ? AND entity_id = ?'' = ''='' # ''?'' # where_words"
  by (simp add: where_words_def)

lemma words_assignment_last:
  assumes "CHR '' '' \<notin> set c"
  shows "split_words (c @ '' = ? WHERE org_id = ? AND entity_id = ?'')
     = c # ''='' # ''?'' # where_words"
proof -
  have "split_words (c @ CHR '' '' # ''= ? WHERE org_id = ? AND entity_id = ?'')
      = split_words c @ split_words ''= ? WHERE org_id = ? AND entity_id = ?''"
    by (rule split_words_blank)
  also have "\<dots> = [c] @ ''='' # ''?'' # where_words"
    by (simp only: split_words_word[OF assms] words_where_clause)
  finally show ?thesis
    by (simp only: append_Cons append_Nil)
qed

lemma parse_assignments_last: "parse_assignments (c # ''='' # ''?'' # where_words) = Some [c]"
  by simp

lemma parse_assignments_more:
  "parse_assignments (c # ''='' # ''?,'' # ws) = map_option ((#) c) (parse_assignments ws)"
  by simp

lemma parse_assignments_rendered:
  assumes "CHR '' '' \<notin> set c" and "\<forall>k \<in> set ks. CHR '' '' \<notin> set k"
  shows "parse_assignments
           (split_words (c @ '' = ?'' @ concat (map (\<lambda>k. '', '' @ k @ '' = ?'') ks)
                           @ '' WHERE org_id = ? AND entity_id = ?''))
     = Some (c # ks)"
  using assms
proof (induction ks arbitrary: c)
  case Nil
  have "c @ '' = ?'' @ concat (map (\<lambda>k. '', '' @ k @ '' = ?'') [])
          @ '' WHERE org_id = ? AND entity_id = ?''
      = c @ '' = ? WHERE org_id = ? AND entity_id = ?''"
    by simp
  then show ?case
    by (simp only: words_assignment_last[OF Nil(1)] parse_assignments_last)
next
  case (Cons k ks)
  have shape: "c @ '' = ?'' @ concat (map (\<lambda>k. '', '' @ k @ '' = ?'') (k # ks))
          @ '' WHERE org_id = ? AND entity_id = ?''
      = c @ '' = ?, '' @ (k @ '' = ?'' @ concat (map (\<lambda>k. '', '' @ k @ '' = ?'') ks)
                              @ '' WHERE org_id = ? AND entity_id = ?'')"
    by simp
  have ih: "parse_assignments
           (split_words (k @ '' = ?'' @ concat (map (\<lambda>k. '', '' @ k @ '' = ?'') ks)
                           @ '' WHERE org_id = ? AND entity_id = ?''))
     = Some (k # ks)"
    using Cons.IH[of k] Cons.prems by simp
  show ?case
    by (simp only: shape words_assignment_more[OF Cons.prems(1)] parse_assignments_more ih
          option.map)
qed

lemma update_field_text:
  "fst (update_field marshal (q, a) (k, v)) =
     (if k \<in> set recognized_keys then q @ '', '' @ k @ '' = ?'' else q)"
  by (simp add: update_field_def recognized_keys_def)

lemma update_field_ignored:
  "k \<notin> set recognized_keys \<Longrightarrow> update_field marshal st (k, v) = st"
  by (cases st) (simp add: update_field_def recognized_keys_def)

lemma foldl_update_field_text:
  "fst (foldl (update_field marshal) (q, a) updates) =
     q @ concat (map (\<lambda>c. '', '' @ c @ '' = ?'')
                  (filter (\<lambda>k. k \<in> set recognized_keys) (map fst updates)))"
proof (induction updates arbitrary: q a)
  case Nil
  then show ?case by simp
next
  case (Cons kv updates)
  obtain k v where kv: "kv = (k, v)" by (cases kv)
  obtain q' a' where st: "update_field marshal (q, a) (k, v) = (q', a')"
    by (cases "update_field marshal (q, a) (k, v)")
  have q': "q' = (if k \<in> set recognized_keys then q @ '', '' @ k @ '' = ?'' else q)"
    using update_field_text[of marshal q a k v] st by simp
  show ?case
    using Cons.IH[of q' a'] by (simp add: kv st q')
qed

lemma foldl_update_field_ignored:
  "\<forall>kv \<in> set updates. fst kv \<notin> set recognized_keys \<Longrightarrow>
     foldl (update_field marshal) st updates = st"
  by (induction updates arbitrary: st) (auto simp: update_field_ignored)

lemma update_statement_text:
  "fst (update_statement marshal now orgID entityID updates)
     = ''UPDATE entities SET '' @
       (''updated_at'' @ '' = ?''
        @ concat (map (\<lambda>c. '', '' @ c @ '' = ?'')
                    (filter (\<lambda>k. k \<in> set recognized_keys) (map fst updates)))
        @ '' WHERE org_id = ? AND entity_id = ?'')"
proof -
  obtain q a where
    st: "foldl (update_field marshal) (''UPDATE entities SET updated_at = ?'', [SqlStr now])
           updates = (q, a)"
    by (cases "foldl (update_field marshal)
                 (''UPDATE entities SET updated_at = ?'', [SqlStr now]) updates")
  have "q = ''UPDATE entities SET updated_at = ?''
            @ concat (map (\<lambda>c. '', '' @ c @ '' = ?'')
                        (filter (\<lambda>k. k \<in> set recognized_keys) (map fst updates)))"
    using foldl_update_field_text
            [of marshal "''UPDATE entities SET updated_at = ?''" "[SqlStr now]" updates] st
    by simp
  then show ?thesis
    by (simp add: update_statement_def st)
qed

lemma parse_update_head:
  "parse_update (''UPDATE entities SET '' @ r) = parse_assignments (split_words r)"
proof -
  have w: "split_words ''UPDATE'' = [''UPDATE'']" "split_words ''entities'' = [''entities'']"
    "split_words ''SET'' = [''SET'']"
    by simp_all
  have "split_words (''UPDATE entities SET '' @ r)
      = split_words (''UPDATE'' @ CHR '' '' # (''entities'' @ CHR '' '' # (''SET'' @ CHR '' '' # r)))"
    by simp
  also have "\<dots> = split_words ''UPDATE'' @ split_words ''entities'' @ split_words ''SET''
                    @ split_words r"
    by (simp only: split_words_blank)
  also have "\<dots> = ''UPDATE'' # ''entities'' # ''SET'' # split_words r"
    by (simp only: w) simp
  finally show ?thesis
    by (simp add: parse_update_def)
qed

lemma parse_update_statement:
  "parse_update (fst (update_statement marshal now orgID entityID updates))
     = Some (set_columns updates)"
proof -
  have "\<forall>k \<in> set (filter (\<lambda>k. k \<in> set recognized_keys) (map fst updates)).
          CHR '' '' \<notin> set k"
    using recognized_key_no_blank by auto
  moreover have "CHR '' '' \<notin> set ''updated_at''" by simp
  ultimately show ?thesis
    unfolding update_statement_text parse_update_head set_columns_def
    by (rule parse_assignments_rendered[rotated])
qed

lemma update_statement_ignored:
  assumes "k \<notin> set recognized_keys"
  shows "update_statement marshal now orgID entityID (us1 @ (k, v) # us2)
       = update_statement marshal now orgID entityID (us1 @ us2)"
  using assms by (simp add: update_statement_def update_field_ignored)

lemma UpdateEntity_ignored:
  assumes "k \<notin> set recognized_keys" and "us1 @ us2 \<noteq> []"
  shows "UpdateEntity marshal Scan now table orgID entityID (us1 @ (k, v) # us2)
       = UpdateEntity marshal Scan now table orgID entityID (us1 @ us2)"
proof -
  have "length (us1 @ us2) \<noteq> 0" using assms(2) by simp
  moreover have "length (us1 @ (k, v) # us2) \<noteq> 0" by simp
  ultimately show ?thesis
    unfolding UpdateEntity_def
    by (simp only: update_statement_ignored[OF assms(1)] if_False)
qed

lemma only_unrecognized_executes:
  assumes "\<forall>kv \<in> set updates. fst kv \<notin> set recognized_keys"
  shows "db_Exec (fst (update_statement marshal now orgID entityID updates))
           (snd (update_statement marshal now orgID entityID updates)) table
     = Inr (map (\<lambda>r. if row_matches orgID entityID r then r(''updated_at'' \<mapsto> SqlStr now)
                      else r) table,
            length (filter (row_matches orgID entityID) table))"
proof -
  have "filter (\<lambda>k. k \<in> set recognized_keys) (map fst updates) = []"
    using assms by (induction updates) auto
  then have c: "set_columns updates = [''updated_at'']"
    by (simp add: set_columns_def)
  have a: "snd (update_statement marshal now orgID entityID updates)
             = [SqlStr now, SqlStr orgID, SqlStr entityID]"
    by (simp add: update_statement_def foldl_update_field_ignored[OF assms])
  show ?thesis
    by (simp add: db_Exec_def parse_update_statement c a)
qed

lemma assign_other: "c \<notin> set cols \<Longrightarrow> assign r cols args c = r c"
  by (induction r cols args rule: assign.induct) simp_all

lemma db_Exec_frame:
  assumes "db_Exec query args table = Inr (table', n)"
    and "parse_update query = Some cols"
  shows "list_all2 (\<lambda>r r'. \<forall>c. c \<notin> set cols \<longrightarrow> r' c = r c) table table'"
proof -
  have "table' = table \<or>
        (\<exists>orgID entityID.
           table' = map (\<lambda>r. if row_matches orgID entityID r then assign r cols args else r)
                      table)"
    using assms
    by (auto simp: db_Exec_def split: if_splits sql_value.splits prod.splits)
  then show ?thesis
    by (auto simp: list_all2_conv_all_nth assign_other)
qed

lemma set_columns_updatable:
  "set (set_columns updates) \<subseteq>
     {''updated_at'', ''status'', ''priority'', ''entity_type'', ''is_live'', ''latitude'',
      ''longitude'', ''altitude'', ''heading'', ''velocity'', ''metadata'', ''components'',
      ''tags''}"
  by (auto simp: set_columns_def recognized_keys_def)

lemma UpdateEntity_frame:
  "list_all2 (\<lambda>r r'. \<forall>c. c \<notin> set (set_columns updates) \<longrightarrow> r' c = r c) table
     (fst (UpdateEntity marshal Scan now table orgID entityID updates))"
proof -
  have same: "\<And>S. list_all2 (\<lambda>r r'. \<forall>c. c \<notin> S \<longrightarrow> r' c = r c) table table"
    by (simp add: list_all2_conv_all_nth)
  obtain query args where st: "update_statement marshal now orgID entityID updates = (query, args)"
    by (cases "update_statement marshal now orgID entityID updates")
  have p: "parse_update query = Some (set_columns updates)"
    using parse_update_statement[of marshal now orgID entityID updates] st by simp
  show ?thesis
  proof (cases "db_Exec query args table")
    case (Inl err)
    then show ?thesis using same st by (simp add: UpdateEntity_def)
  next
    case (Inr res)
    obtain table' n where res: "res = (table', n)" by (cases res)
    have "list_all2 (\<lambda>r r'. \<forall>c. c \<notin> set (set_columns updates) \<longrightarrow> r' c = r c) table table'"
      using Inr res p by (simp add: db_Exec_frame)
    then show ?thesis using same Inr res st by (simp add: UpdateEntity_def)
  qed
qed

lemma frame_mono:
  "S \<subseteq> T \<Longrightarrow> list_all2 (\<lambda>r r'. \<forall>c. c \<notin> S \<longrightarrow> r' c = r c) xs ys \<Longrightarrow>
     list_all2 (\<lambda>r r'. \<forall>c. c \<notin> T \<longrightarrow> r' c = r c) xs ys"
  by (erule list_all2_mono) blast

lemma UpdateEntity_frame_explicit:
  "list_all2
     (\<lambda>r r'. \<forall>c. c \<notin> {''updated_at'', ''status'', ''priority'', ''entity_type'', ''is_live'',
                        ''latitude'', ''longitude'', ''altitude'', ''heading'', ''velocity'',
                        ''metadata'', ''components'', ''tags''} \<longrightarrow> r' c = r c)
     table (fst (UpdateEntity marshal Scan now table orgID entityID updates))"
  by (rule frame_mono[OF set_columns_updatable UpdateEntity_frame])

text \<open>
  C10. The \<^verbatim>\<open>SET\<close> clause of the statement \<^verbatim>\<open>UpdateEntity\<close> builds names \<open>updated_at\<close>
  and then the recognized keys of the updates map, in the order of the loop, and nothing
  else. Whatever the call returns, every row of the table afterwards agrees with the row
  before on every column outside \<open>updated_at\<close>, \<open>status\<close>, \<open>priority\<close>, \<open>entity_type\<close>,
  \<open>is_live\<close>, \<open>latitude\<close>, \<open>longitude\<close>, \<open>altitude\<close>, \<open>heading\<close>, \<open>velocity\<close>,
  \<open>metadata\<close>, \<open>components\<close> and \<open>tags\<close>. A key outside the recognized ones is ignored:
  with it, the statement and its arguments are the ones built without it, the call
  returns what it returns without it as long as another key is left, and a map of such
  keys alone executes without error and writes \<open>updated_at\<close> only.
\<close>

theorem UpdateEntity_changes_only_recognized_columns:
  "parse_update (fst (update_statement marshal now orgID entityID updates))
     = Some (set_columns updates)
   \<and> set (set_columns updates) \<subseteq>
       {''updated_at'', ''status'', ''priority'', ''entity_type'', ''is_live'', ''latitude'',
        ''longitude'', ''altitude'', ''heading'', ''velocity'', ''metadata'', ''components'',
        ''tags''}
   \<and> list_all2
       (\<lambda>r r'. \<forall>c. c \<notin> {''updated_at'', ''status'', ''priority'', ''entity_type'', ''is_live'',
                          ''latitude'', ''longitude'', ''altitude'', ''heading'', ''velocity'',
                          ''metadata'', ''components'', ''tags''} \<longrightarrow> r' c = r c)
       table (fst (UpdateEntity marshal Scan now table orgID entityID updates))
   \<and> (\<forall>us1 k v us2.
         updates = us1 @ (k, v) # us2
         \<and> k \<notin> {''status'', ''priority'', ''entity_type'', ''is_live'', ''latitude'',
                  ''longitude'', ''altitude'', ''heading'', ''velocity'', ''metadata'',
                  ''components'', ''tags''} \<longrightarrow>
         update_statement marshal now orgID entityID updates
           = update_statement marshal now orgID entityID (us1 @ us2)
         \<and> (us1 @ us2 \<noteq> [] \<longrightarrow>
              UpdateEntity marshal Scan now table orgID entityID updates
                = UpdateEntity marshal Scan now table orgID entityID (us1 @ us2)))
   \<and> ((\<forall>kv \<in> set updates.
          fst kv \<notin> {''status'', ''priority'', ''entity_type'', ''is_live'', ''latitude'',
                      ''longitude'', ''altitude'', ''heading'', ''velocity'', ''metadata'',
                      ''components'', ''tags''}) \<longrightarrow>
        db_Exec (fst (update_statement marshal now orgID entityID updates))
            (snd (update_statement marshal now orgID entityID updates)) table
          = Inr (map (\<lambda>r. if row_matches orgID entityID r
                           then r(''updated_at'' \<mapsto> SqlStr now) else r) table,
                 length (filter (row_matches orgID entityID) table)))"
proof (intro conjI)
  show "parse_update (fst (update_statement marshal now orgID entityID updates))
          = Some (set_columns updates)"
    by (rule parse_update_statement)
  show "set (set_columns updates) \<subseteq>
       {''updated_at'', ''status'', ''priority'', ''entity_type'', ''is_live'', ''latitude'',
        ''longitude'', ''altitude'', ''heading'', ''velocity'', ''metadata'', ''components'',
        ''tags''}"
    by (rule set_columns_updatable)
  show "list_all2
       (\<lambda>r r'. \<forall>c. c \<notin> {''updated_at'', ''status'', ''priority'', ''entity_type'', ''is_live'',
                          ''latitude'', ''longitude'', ''altitude'', ''heading'', ''velocity'',
                          ''metadata'', ''components'', ''tags''} \<longrightarrow> r' c = r c)
       table (fst (UpdateEntity marshal Scan now table orgID entityID updates))"
    by (rule UpdateEntity_frame_explicit)
  show "\<forall>us1 k v us2.
         updates = us1 @ (k, v) # us2
         \<and> k \<notin> {''status'', ''priority'', ''entity_type'', ''is_live'', ''latitude'',
                  ''longitude'', ''altitude'', ''heading'', ''velocity'', ''metadata'',
                  ''components'', ''tags''} \<longrightarrow>
         update_statement marshal now orgID entityID updates
           = update_statement marshal now orgID entityID (us1 @ us2)
         \<and> (us1 @ us2 \<noteq> [] \<longrightarrow>
              UpdateEntity marshal Scan now table orgID entityID updates
                = UpdateEntity marshal Scan now table orgID entityID (us1 @ us2))"
    using update_statement_ignored UpdateEntity_ignored
    unfolding recognized_keys_set[symmetric] by blast
  show "(\<forall>kv \<in> set updates.
          fst kv \<notin> {''status'', ''priority'', ''entity_type'', ''is_live'', ''latitude'',
                      ''longitude'', ''altitude'', ''heading'', ''velocity'', ''metadata'',
                      ''components'', ''tags''}) \<longrightarrow>
        db_Exec (fst (update_statement marshal now orgID entityID updates))
            (snd (update_statement marshal now orgID entityID updates)) table
          = Inr (map (\<lambda>r. if row_matches orgID entityID r
                           then r(''updated_at'' \<mapsto> SqlStr now) else r) table,
                 length (filter (row_matches orgID entityID) table))"
    using only_unrecognized_executes
    unfolding recognized_keys_set[symmetric] by blast
qed

lemma sample_update_runs:
  "fst (UpdateEntity (\<lambda>_. ''null'') Inr ''t1'' [sample_row] ''org1'' ''e1''
          [(''status'', JStr ''active'')])
     = [sample_row(''updated_at'' \<mapsto> SqlStr ''t1'', ''status'' \<mapsto> SqlVal (JStr ''active''))]"
proof -
  obtain query args where
    st: "update_statement (\<lambda>_. ''null'') ''t1'' ''org1'' ''e1''
           [(''status'', JStr ''active'' :: unit jvalue)] = (query, args)"
    by (cases "update_statement (\<lambda>_. ''null'') ''t1'' ''org1'' ''e1''
                 [(''status'', JStr ''active'' :: unit jvalue)]")
  have p: "parse_update query = Some [''updated_at'', ''status'']"
    using parse_update_statement
            [of "\<lambda>_. ''null''" "''t1''" "''org1''" "''e1''"
                "[(''status'', JStr ''active'' :: unit jvalue)]"] st
    by (simp add: set_columns_def recognized_keys_def)
  have a: "args = [SqlStr ''t1'', SqlVal (JStr ''active''), SqlStr ''org1'', SqlStr ''e1'']"
    using st by (simp add: update_statement_def update_field_def)
  show ?thesis
    by (simp add: UpdateEntity_def st db_Exec_def p a row_matches_def sample_row_def)
qed

theorem UpdateEntity_changes_only_recognized_columns_witness:
  "''color'' \<notin> {''status'', ''priority'', ''entity_type'', ''is_live'', ''latitude'',
                 ''longitude'', ''altitude'', ''heading'', ''velocity'', ''metadata'',
                 ''components'', ''tags''}
   \<and> UpdateEntity (\<lambda>_. ''null'') Inr ''t1'' [sample_row] ''org1'' ''e1''
         [(''status'', JStr ''active''), (''color'', JStr ''red'')]
       = UpdateEntity (\<lambda>_. ''null'') Inr ''t1'' [sample_row] ''org1'' ''e1''
           [(''status'', JStr ''active'')]
   \<and> fst (UpdateEntity (\<lambda>_. ''null'') Inr ''t1'' [sample_row] ''org1'' ''e1''
            [(''status'', JStr ''active''), (''color'', JStr ''red'')])
       = [sample_row(''updated_at'' \<mapsto> SqlStr ''t1'', ''status'' \<mapsto> SqlVal (JStr ''active''))]"
proof -
  have k: "''color'' \<notin> {''status'', ''priority'', ''entity_type'', ''is_live'', ''latitude'',
                 ''longitude'', ''altitude'', ''heading'', ''velocity'', ''metadata'',
                 ''components'', ''tags''}"
    by simp
  have split: "[(''status'', JStr ''active''), (''color'', JStr ''red'')]
                 = [(''status'', JStr ''active'')] @ (''color'', JStr ''red'') # []"
    by simp
  have prem: "[(''status'', JStr ''active''), (''color'', JStr ''red'')]
                 = [(''status'', JStr ''active'')] @ (''color'', JStr ''red'') # []
               \<and> ''color'' \<notin> {''status'', ''priority'', ''entity_type'', ''is_live'', ''latitude'',
                 ''longitude'', ''altitude'', ''heading'', ''velocity'', ''metadata'',
                 ''components'', ''tags''}"
    using k split by (rule_tac conjI)
  have rest: "[(''status'', JStr ''active'')] @ [] \<noteq> ([] :: (string \<times> unit jvalue) list)"
    by simp
  note all = UpdateEntity_changes_only_recognized_columns
         [of "\<lambda>_. ''null''" "''t1''" "''org1''" "''e1''"
             "[(''status'', JStr ''active''), (''color'', JStr ''red'')]" "[sample_row]" Inr]
  note ignored = all[THEN conjunct2, THEN conjunct2, THEN conjunct2, THEN conjunct1]
  have eq: "UpdateEntity (\<lambda>_. ''null'') Inr ''t1'' [sample_row] ''org1'' ''e1''
              [(''status'', JStr ''active''), (''color'', JStr ''red'')]
          = UpdateEntity (\<lambda>_. ''null'') Inr ''t1'' [sample_row] ''org1'' ''e1''
              ([(''status'', JStr ''active'')] @ [])"
    by (rule ignored[rule_format, OF prem, THEN conjunct2, THEN mp, OF rest])
  have eq': "UpdateEntity (\<lambda>_. ''null'') Inr ''t1'' [sample_row] ''org1'' ''e1''
              [(''status'', JStr ''active''), (''color'', JStr ''red'')]
          = UpdateEntity (\<lambda>_. ''null'') Inr ''t1'' [sample_row] ''org1'' ''e1''
              [(''status'', JStr ''active'')]"
    using eq by (simp only: append_Nil2)
  show ?thesis
    using k eq' sample_update_runs by (simp only: simp_thms)
qed

end
